theory Spec2Isabelle
  imports Complex_Main
begin

section \<open>JavaScript values\<close>

text \<open>
  Values the server handles at run time: what \<^verbatim>\<open>JSON.parse\<close> yields for a response
  body, plus \<^verbatim>\<open>undefined\<close> (the value of a property that is not there). A number is
  a real: the model covers the finite numbers, whole or fractional, of any size;
  \<^verbatim>\<open>NaN\<close> and the infinities are outside it. An object is the list of its entries in
  insertion order, each key once.
\<close>

datatype jsval =
    JUndefined
  | JNull
  | JBool bool
  | JNum real
  | JStr string
  | JArr "jsval list"
  | JObj "(string \<times> jsval) list"

text \<open>
  Everything the source throws is an instance of \<^verbatim>\<open>Error\<close>: \<^verbatim>\<open>new Error(msg)\<close> of the
  source itself, a \<^verbatim>\<open>TypeError\<close> of the engine (the wording is V8's), and the rejection
  of \<^verbatim>\<open>fetch\<close> or of \<^verbatim>\<open>response.json()\<close>, whose message the environment supplies.
\<close>

datatype js_error = Error string | TypeError string | FetchError string

fun message :: "js_error \<Rightarrow> string" where
  "message (Error m) = m"
| "message (TypeError m) = m"
| "message (FetchError m) = m"

text \<open>Truthiness, as \<^verbatim>\<open>if (v)\<close> and \<^verbatim>\<open>!v\<close> test it.\<close>

fun truthy :: "jsval \<Rightarrow> bool" where
  "truthy JUndefined = False"
| "truthy JNull = False"
| "truthy (JBool b) = b"
| "truthy (JNum n) = (n \<noteq> 0)"
| "truthy (JStr s) = (s \<noteq> [])"
| "truthy (JArr xs) = True"
| "truthy (JObj kvs) = True"

text \<open>\<^verbatim>\<open>!this.username\<close> on a field of type \<^verbatim>\<open>string | undefined\<close>.\<close>

fun truthy_opt :: "string option \<Rightarrow> bool" where
  "truthy_opt None = False"
| "truthy_opt (Some s) = (s \<noteq> [])"

text \<open>
  Property read \<^verbatim>\<open>v.k\<close>. Reading a property of \<^verbatim>\<open>undefined\<close> or \<^verbatim>\<open>null\<close> throws; an
  object yields the entry or \<^verbatim>\<open>undefined\<close>; none of the names the source reads is
  inherited by a number, a boolean, a string or an array (the one exception,
  \<^verbatim>\<open>search\<close> on a string, is handled where it is read).
\<close>

definition cannot_read :: "string \<Rightarrow> string \<Rightarrow> js_error" where
  "cannot_read what k =
     TypeError (''Cannot read properties of '' @ what @ '' (reading '' @ [CHR 0x27] @ k @ [CHR 0x27] @ '')'')"

fun get_prop :: "jsval \<Rightarrow> string \<Rightarrow> js_error + jsval" where
  "get_prop JUndefined k = Inl (cannot_read ''undefined'' k)"
| "get_prop JNull k = Inl (cannot_read ''null'' k)"
| "get_prop (JObj kvs) k = Inr (case map_of kvs k of None \<Rightarrow> JUndefined | Some v \<Rightarrow> v)"
| "get_prop v k = Inr JUndefined"

text \<open>A chain of property reads \<^verbatim>\<open>v.k1.k2...\<close>, left to right.\<close>

fun get_path :: "jsval \<Rightarrow> string list \<Rightarrow> js_error + jsval" where
  "get_path v [] = Inr v"
| "get_path v (k # ks) = (case get_prop v k of Inl e \<Rightarrow> Inl e | Inr w \<Rightarrow> get_path w ks)"

text \<open>Element read \<^verbatim>\<open>v[0]\<close>.\<close>

fun get_first :: "jsval \<Rightarrow> js_error + jsval" where
  "get_first JUndefined = Inl (cannot_read ''undefined'' ''0'')"
| "get_first JNull = Inl (cannot_read ''null'' ''0'')"
| "get_first (JArr []) = Inr JUndefined"
| "get_first (JArr (x # xs)) = Inr x"
| "get_first (JStr []) = Inr JUndefined"
| "get_first (JStr (ch # s)) = Inr (JStr [ch])"
| "get_first (JObj kvs) = Inr (case map_of kvs ''0'' of None \<Rightarrow> JUndefined | Some v \<Rightarrow> v)"
| "get_first v = Inr JUndefined"

subsection \<open>Conversion to string\<close>

text \<open>
  \<^verbatim>\<open>String(v)\<close> and the conversion a template literal applies. How the engine prints a
  number (plain digits, a fraction, or the exponent form of a large or a small one) is
  not fixed here: it is the parameter \<open>num\<close>, and every fact below holds whatever it is.
  An array is its elements joined by commas (\<^verbatim>\<open>undefined\<close> and \<^verbatim>\<open>null\<close> as the empty
  string); a parsed object is \<^verbatim>\<open>[object Object]\<close> unless it has an entry named
  \<^verbatim>\<open>toString\<close>, which shadows the inherited method with a value that cannot be called.
\<close>

fun to_string :: "(real \<Rightarrow> string) \<Rightarrow> jsval \<Rightarrow> js_error + string"
  and join_elems :: "(real \<Rightarrow> string) \<Rightarrow> jsval list \<Rightarrow> js_error + string" where
  "to_string num JUndefined = Inr ''undefined''"
| "to_string num JNull = Inr ''null''"
| "to_string num (JBool b) = Inr (if b then ''true'' else ''false'')"
| "to_string num (JNum n) = Inr (num n)"
| "to_string num (JStr s) = Inr s"
| "to_string num (JArr xs) = join_elems num xs"
| "to_string num (JObj kvs) =
     (if ''toString'' \<in> fst ` set kvs
      then Inl (TypeError ''Cannot convert object to primitive value'')
      else Inr ''[object Object]'')"
| "join_elems num [] = Inr []"
| "join_elems num (x # xs) =
     (case (if x = JUndefined \<or> x = JNull then Inr [] else to_string num x) of
        Inl e \<Rightarrow> Inl e
      | Inr s \<Rightarrow>
          (if xs = [] then Inr s
           else (case join_elems num xs of Inl e \<Rightarrow> Inl e | Inr r \<Rightarrow> Inr (s @ '','' @ r))))"

text \<open>\<^verbatim>\<open>xs.join(sep)\<close> on an array of strings.\<close>

fun join_with :: "string \<Rightarrow> string list \<Rightarrow> string" where
  "join_with sep [] = []"
| "join_with sep [x] = x"
| "join_with sep (x # y # ys) = x @ sep @ join_with sep (y # ys)"

section \<open>The remote wiki and the session\<close>

datatype http_method = GET | POST

text \<open>
  What one call hands to \<^verbatim>\<open>fetch\<close>: the method, the configured URL, the \<^verbatim>\<open>Cookie\<close>
  header when there is one, and the entries appended to the query string (GET) or to the
  form body (POST), each value already converted by \<^verbatim>\<open>String\<close>. The two constant
  headers (\<^verbatim>\<open>User-Agent\<close>, and \<^verbatim>\<open>Content-Type\<close> on a POST) are left out.
\<close>

record request =
  req_method :: http_method
  req_url :: string
  req_cookie :: "string option"
  req_entries :: "(string \<times> string) list"

text \<open>
  What comes back: the \<^verbatim>\<open>Set-Cookie\<close> header (\<^verbatim>\<open>None\<close> for \<^verbatim>\<open>null\<close>) and the result
  of \<^verbatim>\<open>response.json()\<close>, either the parsed body or the message of its rejection.
\<close>

record response =
  set_cookie :: "string option"
  json_body :: "string + jsval"

text \<open>
  The remote side is any deterministic function of the requests sent so far, the current
  one last; \<^verbatim>\<open>Inl\<close> is a rejected \<^verbatim>\<open>fetch\<close>.
\<close>

type_synonym server = "request list \<Rightarrow> string + response"

text \<open>
  What the code runs in: the engine's printing of numbers and the remote wiki. Both are
  arbitrary in everything that follows.
\<close>

record environment =
  number_text :: "real \<Rightarrow> string"
  remote :: server

record client =
  apiUrl :: string
  username :: "string option"
  password :: "string option"
  loggedIn :: bool
  editToken :: jsval
  cookies :: "string list"

text \<open>
  The client together with the log of the requests it has handed to \<^verbatim>\<open>fetch\<close>, oldest
  first. The log is not a field of the source: it is what the remote side has seen.
\<close>

type_synonym world = "client \<times> request list"

definition new_client :: "string \<Rightarrow> string option \<Rightarrow> string option \<Rightarrow> client" where
  "new_client u n p =
     \<lparr>apiUrl = u, username = n, password = p, loggedIn = False,
      editToken = JUndefined, cookies = []\<rparr>"

text \<open>Sequencing of calls that may throw: \<^verbatim>\<open>const x = await m; k(x)\<close>.\<close>

definition await :: "('s \<Rightarrow> (js_error + 'a) \<times> 's) \<Rightarrow> ('a \<Rightarrow> 's \<Rightarrow> (js_error + 'b) \<times> 's)
    \<Rightarrow> 's \<Rightarrow> (js_error + 'b) \<times> 's" where
  "await m k s = (case m s of (Inl e, s') \<Rightarrow> (Inl e, s') | (Inr x, s') \<Rightarrow> k x s')"

text \<open>An expression that may throw and touches no state.\<close>

definition expr :: "js_error + 'a \<Rightarrow> 's \<Rightarrow> (js_error + 'a) \<times> 's" where
  "expr r s = (r, s)"

subsection \<open>makeApiCall\<close>

text \<open>\<^verbatim>\<open>params.k = v\<close>: overwrite the entry in place, or add it at the end.\<close>

fun set_param :: "(string \<times> jsval) list \<Rightarrow> string \<Rightarrow> jsval \<Rightarrow> (string \<times> jsval) list" where
  "set_param [] k v = [(k, v)]"
| "set_param ((k', v') # ps) k v =
     (if k' = k then (k, v) # ps else (k', v') # set_param ps k v)"

text \<open>
  The \<^verbatim>\<open>forEach\<close> over \<^verbatim>\<open>Object.entries(params)\<close>: an entry whose value is
  \<^verbatim>\<open>undefined\<close> is skipped, every other value goes through \<^verbatim>\<open>String\<close>.
\<close>

fun encode :: "(real \<Rightarrow> string) \<Rightarrow> (string \<times> jsval) list \<Rightarrow> js_error + (string \<times> string) list" where
  "encode num [] = Inr []"
| "encode num ((k, v) # ps) =
     (if v = JUndefined then encode num ps
      else (case to_string num v of
              Inl e \<Rightarrow> Inl e
            | Inr s \<Rightarrow> (case encode num ps of Inl e \<Rightarrow> Inl e | Inr r \<Rightarrow> Inr ((k, s) # r))))"

definition cookie_header :: "client \<Rightarrow> string option" where
  "cookie_header c = (if length (cookies c) > 0 then Some (join_with ''; '' (cookies c)) else None)"

definition build_request :: "(real \<Rightarrow> string) \<Rightarrow> client \<Rightarrow> (string \<times> jsval) list \<Rightarrow> http_method
    \<Rightarrow> js_error + request" where
  "build_request num c params m =
     (case encode num (set_param (set_param params ''format'' (JStr ''json'')) ''formatversion'' (JStr ''2'')) of
        Inl e \<Rightarrow> Inl e
      | Inr es \<Rightarrow> Inr \<lparr>req_method = m, req_url = apiUrl c, req_cookie = cookie_header c, req_entries = es\<rparr>)"

text \<open>\<^verbatim>\<open>if (setCookieHeader) this.cookies.push(setCookieHeader)\<close>.\<close>

definition save_cookies :: "response \<Rightarrow> client \<Rightarrow> client" where
  "save_cookies resp c =
     (case set_cookie resp of
        None \<Rightarrow> c
      | Some s \<Rightarrow> if s \<noteq> [] then c\<lparr>cookies := cookies c @ [s]\<rparr> else c)"

text \<open>
  The \<^verbatim>\<open>throw\<close> of makeApiCall on a body whose \<^verbatim>\<open>error\<close> is truthy: the template
  literal reads and converts \<^verbatim>\<open>code\<close>, then \<^verbatim>\<open>info\<close>.
\<close>

definition api_error :: "(real \<Rightarrow> string) \<Rightarrow> jsval \<Rightarrow> js_error" where
  "api_error num err =
     (case get_prop err ''code'' of
        Inl e \<Rightarrow> e
      | Inr code \<Rightarrow>
          (case to_string num code of
             Inl e \<Rightarrow> e
           | Inr cs \<Rightarrow>
               (case get_prop err ''info'' of
                  Inl e \<Rightarrow> e
                | Inr info \<Rightarrow>
                    (case to_string num info of
                       Inl e \<Rightarrow> e
                     | Inr is \<Rightarrow> Error (''MediaWiki API error: '' @ cs @ '' - '' @ is)))))"

definition check_body :: "(real \<Rightarrow> string) \<Rightarrow> jsval \<Rightarrow> js_error + jsval" where
  "check_body num data =
     (case get_prop data ''error'' of
        Inl e \<Rightarrow> Inl e
      | Inr err \<Rightarrow> if truthy err then Inl (api_error num err) else Inr data)"

text \<open>
  The call itself. The configured URL is taken to be well formed, so that
  \<^verbatim>\<open>new URL(this.apiUrl)\<close> does not throw. The \<^verbatim>\<open>Set-Cookie\<close> header is saved as soon as
  the response is there, before the body is parsed and before its \<^verbatim>\<open>error\<close> is looked
  at.
\<close>

definition makeApiCall :: "environment \<Rightarrow> (string \<times> jsval) list \<Rightarrow> http_method \<Rightarrow> world
    \<Rightarrow> (js_error + jsval) \<times> world" where
  "makeApiCall env params m w =
     (case w of (c, sent) \<Rightarrow>
        (case build_request (number_text env) c params m of
           Inl e \<Rightarrow> (Inl e, (c, sent))
         | Inr req \<Rightarrow>
             (case remote env (sent @ [req]) of
                Inl msg \<Rightarrow> (Inl (FetchError msg), (c, sent @ [req]))
              | Inr resp \<Rightarrow>
                  (case json_body resp of
                     Inl msg \<Rightarrow> (Inl (FetchError msg), (save_cookies resp c, sent @ [req]))
                   | Inr data \<Rightarrow>
                       (check_body (number_text env) data, (save_cookies resp c, sent @ [req]))))))"

subsection \<open>login and getEditToken\<close>

text \<open>A field of type \<^verbatim>\<open>string | undefined\<close> as a value.\<close>

fun of_opt :: "string option \<Rightarrow> jsval" where
  "of_opt None = JUndefined"
| "of_opt (Some s) = JStr s"

definition login_token_params :: "(string \<times> jsval) list" where
  "login_token_params = [(''action'', JStr ''query''), (''meta'', JStr ''tokens''), (''type'', JStr ''login'')]"

definition login_params :: "client \<Rightarrow> jsval \<Rightarrow> (string \<times> jsval) list" where
  "login_params c loginToken =
     [(''action'', JStr ''login''), (''lgname'', of_opt (username c)),
      (''lgpassword'', of_opt (password c)), (''lgtoken'', loginToken)]"

text \<open>The \<^verbatim>\<open>throw\<close> of login when the result is not \<^verbatim>\<open>Success\<close>.\<close>

definition login_failed :: "(real \<Rightarrow> string) \<Rightarrow> jsval \<Rightarrow> js_error" where
  "login_failed num loginResponse =
     (case get_path loginResponse [''login'', ''reason''] of
        Inl e \<Rightarrow> e
      | Inr reason \<Rightarrow>
          (case to_string num reason of
             Inl e \<Rightarrow> e
           | Inr s \<Rightarrow> Error (''Login failed: '' @ s)))"

definition login :: "environment \<Rightarrow> world \<Rightarrow> (js_error + bool) \<times> world" where
  "login env w =
     (if \<not> truthy_opt (username (fst w)) \<or> \<not> truthy_opt (password (fst w)) then (Inr False, w)
      else if loggedIn (fst w) then (Inr True, w)
      else
        await (makeApiCall env login_token_params GET) (\<lambda>tokenResponse.
        await (expr (get_path tokenResponse [''query'', ''tokens'', ''logintoken''])) (\<lambda>loginToken.
        await (\<lambda>w1. makeApiCall env (login_params (fst w1) loginToken) POST w1) (\<lambda>loginResponse.
        await (expr (get_path loginResponse [''login'', ''result''])) (\<lambda>result w2.
          if result = JStr ''Success''
          then (Inr True, ((fst w2)\<lparr>loggedIn := True\<rparr>, snd w2))
          else (Inl (login_failed (number_text env) loginResponse), w2))))) w)"

definition edit_token_params :: "(string \<times> jsval) list" where
  "edit_token_params = [(''action'', JStr ''query''), (''meta'', JStr ''tokens'')]"

definition getEditToken :: "environment \<Rightarrow> world \<Rightarrow> (js_error + jsval) \<times> world" where
  "getEditToken env w =
     (if \<not> truthy (editToken (fst w))
      then
        await (makeApiCall env edit_token_params GET) (\<lambda>tokenResponse.
        await (expr (get_path tokenResponse [''query'', ''tokens'', ''csrftoken''])) (\<lambda>token w1.
          (Inr token, ((fst w1)\<lparr>editToken := token\<rparr>, snd w1)))) w
      else (Inr (editToken (fst w)), w))"

text \<open>getEditToken called \<open>n\<close> times in sequence, each result kept.\<close>

fun getEditToken_times :: "environment \<Rightarrow> nat \<Rightarrow> world \<Rightarrow> (js_error + jsval) list \<times> world" where
  "getEditToken_times env 0 w = ([], w)"
| "getEditToken_times env (Suc n) w =
     (case getEditToken env w of (r, w1) \<Rightarrow>
        (case getEditToken_times env n w1 of (rs, w2) \<Rightarrow> (r # rs, w2)))"

subsection \<open>The six operations\<close>

text \<open>A parameter with a default value: \<^verbatim>\<open>f(x = d)\<close>.\<close>

definition default_to :: "jsval \<Rightarrow> jsval \<Rightarrow> jsval" where
  "default_to d v = (if v = JUndefined then d else v)"

definition searchPages :: "environment \<Rightarrow> jsval \<Rightarrow> jsval \<Rightarrow> world \<Rightarrow> (js_error + jsval) \<times> world" where
  "searchPages env q limit =
     makeApiCall env
       [(''action'', JStr ''query''), (''list'', JStr ''search''), (''srsearch'', q),
        (''srlimit'', default_to (JNum 10) limit), (''srinfo'', JStr ''totalhits''),
        (''srprop'', JStr ''size|wordcount|timestamp|snippet'')] GET"

definition getPage :: "environment \<Rightarrow> jsval \<Rightarrow> world \<Rightarrow> (js_error + jsval) \<times> world" where
  "getPage env t =
     makeApiCall env
       [(''action'', JStr ''query''), (''prop'', JStr ''revisions''), (''titles'', t),
        (''rvprop'', JStr ''content|timestamp|user|comment''), (''rvslots'', JStr ''main'')] GET"

definition create_params :: "jsval \<Rightarrow> jsval \<Rightarrow> jsval \<Rightarrow> jsval \<Rightarrow> (string \<times> jsval) list" where
  "create_params t content summary token =
     [(''action'', JStr ''edit''), (''title'', t), (''text'', content),
      (''summary'', default_to (JStr []) summary), (''token'', token), (''createonly'', JBool True)]"

definition createPage :: "environment \<Rightarrow> jsval \<Rightarrow> jsval \<Rightarrow> jsval \<Rightarrow> world \<Rightarrow> (js_error + jsval) \<times> world" where
  "createPage env t content summary =
     await (getEditToken env) (\<lambda>token.
       makeApiCall env (create_params t content summary token) POST)"

definition update_params :: "jsval \<Rightarrow> jsval \<Rightarrow> jsval \<Rightarrow> jsval \<Rightarrow> (string \<times> jsval) list" where
  "update_params t content summary token =
     [(''action'', JStr ''edit''), (''title'', t), (''text'', content),
      (''summary'', default_to (JStr []) summary), (''token'', token)]"

definition updatePage :: "environment \<Rightarrow> jsval \<Rightarrow> jsval \<Rightarrow> jsval \<Rightarrow> world \<Rightarrow> (js_error + jsval) \<times> world" where
  "updatePage env t content summary =
     await (getEditToken env) (\<lambda>token.
       makeApiCall env (update_params t content summary token) POST)"

definition getPageHistory :: "environment \<Rightarrow> jsval \<Rightarrow> jsval \<Rightarrow> world \<Rightarrow> (js_error + jsval) \<times> world" where
  "getPageHistory env t limit =
     makeApiCall env
       [(''action'', JStr ''query''), (''prop'', JStr ''revisions''), (''titles'', t),
        (''rvprop'', JStr ''timestamp|user|comment|ids''), (''rvlimit'', default_to (JNum 10) limit)] GET"

definition getCategories :: "environment \<Rightarrow> jsval \<Rightarrow> world \<Rightarrow> (js_error + jsval) \<times> world" where
  "getCategories env t =
     makeApiCall env
       [(''action'', JStr ''query''), (''prop'', JStr ''categories''), (''titles'', t),
        (''cllimit'', JStr ''max'')] GET"

section \<open>The tool-call handler\<close>

text \<open>
  The arguments of a tool call, in the shapes the handler casts them to (a string, or a
  number for \<^verbatim>\<open>limit\<close>); a field the caller leaves out is \<^verbatim>\<open>undefined\<close> at run time,
  here \<open>None\<close>.
\<close>

record tool_arguments =
  arg_query :: "string option"
  arg_title :: "string option"
  arg_content :: "string option"
  arg_summary :: "string option"
  arg_limit :: "real option"

record call_request =
  call_name :: string
  call_arguments :: "tool_arguments option"

text \<open>
  The one text block of a tool result. \<open>JSON_stringify v\<close> stands for the string
  \<^verbatim>\<open>JSON.stringify(v, null, 2)\<close>, which leaves out the entries of \<open>v\<close> whose value is
  \<^verbatim>\<open>undefined\<close>.
\<close>

datatype text_block = JSON_stringify jsval | Plain string

record tool_result =
  res_text :: text_block
  isError :: bool

definition json_result :: "jsval \<Rightarrow> tool_result" where
  "json_result v = \<lparr>res_text = JSON_stringify v, isError = False\<rparr>"

definition error_result :: "js_error \<Rightarrow> tool_result" where
  "error_result e = \<lparr>res_text = Plain (''Error: '' @ message e), isError = True\<rparr>"

text \<open>\<^verbatim>\<open>xs.map(f)\<close> with a callback that may throw.\<close>

fun map_throw :: "('a \<Rightarrow> js_error + 'b) \<Rightarrow> 'a list \<Rightarrow> js_error + 'b list" where
  "map_throw f [] = Inr []"
| "map_throw f (x # xs) =
     (case f x of
        Inl e \<Rightarrow> Inl e
      | Inr y \<Rightarrow> (case map_throw f xs of Inl e \<Rightarrow> Inl e | Inr ys \<Rightarrow> Inr (y # ys)))"

text \<open>
  \<^verbatim>\<open>v.map(f)\<close> on a parsed value: only an array has the method; \<open>path\<close> is the
  expression, which the engine prints in its message.
\<close>

definition array_map :: "string \<Rightarrow> (jsval \<Rightarrow> js_error + jsval) \<Rightarrow> jsval \<Rightarrow> js_error + jsval" where
  "array_map path f v =
     (case v of
        JArr xs \<Rightarrow> (case map_throw f xs of Inl e \<Rightarrow> Inl e | Inr ys \<Rightarrow> Inr (JArr ys))
      | JUndefined \<Rightarrow> Inl (cannot_read ''undefined'' ''map'')
      | JNull \<Rightarrow> Inl (cannot_read ''null'' ''map'')
      | _ \<Rightarrow> Inl (TypeError (path @ ''.map is not a function'')))"

text \<open>An object literal \<^verbatim>\<open>{ new1: v.old1, new2: v.old2, ... }\<close>.\<close>

fun pick :: "(string \<times> string) list \<Rightarrow> jsval \<Rightarrow> js_error + (string \<times> jsval) list" where
  "pick [] v = Inr []"
| "pick ((new, old) # fs) v =
     (case get_prop v old of
        Inl e \<Rightarrow> Inl e
      | Inr x \<Rightarrow> (case pick fs v of Inl e \<Rightarrow> Inl e | Inr r \<Rightarrow> Inr ((new, x) # r)))"

definition pick_obj :: "(string \<times> string) list \<Rightarrow> jsval \<Rightarrow> js_error + jsval" where
  "pick_obj fs v = (case pick fs v of Inl e \<Rightarrow> Inl e | Inr r \<Rightarrow> Inr (JObj r))"

definition with_default :: "'a \<Rightarrow> 'a option \<Rightarrow> 'a" where
  "with_default d v = (case v of None \<Rightarrow> d | Some x \<Rightarrow> x)"

text \<open>
  \<^verbatim>\<open>result.query.search.map(...)\<close>. A string inherits a method named \<^verbatim>\<open>search\<close>, and
  a function has no \<^verbatim>\<open>map\<close>.
\<close>

definition search_hits :: "jsval \<Rightarrow> js_error + jsval" where
  "search_hits q =
     (case q of
        JStr s \<Rightarrow> Inl (TypeError ''result.query.search.map is not a function'')
      | _ \<Rightarrow>
          (case get_prop q ''search'' of
             Inl e \<Rightarrow> Inl e
           | Inr found \<Rightarrow>
               array_map ''result.query.search''
                 (pick_obj [(''title'', ''title''), (''snippet'', ''snippet''), (''size'', ''size''),
                            (''wordCount'', ''wordcount''), (''timestamp'', ''timestamp'')])
                 found))"

definition search_pages_case :: "environment \<Rightarrow> tool_arguments \<Rightarrow> world \<Rightarrow> (js_error + tool_result) \<times> world" where
  "search_pages_case env a =
     await (searchPages env (of_opt (arg_query a)) (JNum (min (with_default 10 (arg_limit a)) 50))) (\<lambda>result.
     await (expr (get_prop result ''query'')) (\<lambda>q.
     await (expr (search_hits q)) (\<lambda>pages.
     await (expr (get_path q [''searchinfo'', ''totalhits''])) (\<lambda>total.
       expr (Inr (json_result (JObj [(''totalHits'', total), (''pages'', pages)])))))))"

text \<open>\<^verbatim>\<open>const page = result.query.pages[0]\<close>, shared by four cases.\<close>

definition first_page :: "jsval \<Rightarrow> js_error + jsval" where
  "first_page result =
     (case get_path result [''query'', ''pages''] of Inl e \<Rightarrow> Inl e | Inr pages \<Rightarrow> get_first pages)"

definition missing_result :: "jsval \<Rightarrow> js_error + tool_result" where
  "missing_result page =
     (case get_prop page ''title'' of
        Inl e \<Rightarrow> Inl e
      | Inr t \<Rightarrow>
          Inr (json_result (JObj [(''title'', t), (''exists'', JBool False),
                                  (''message'', JStr ''Page does not exist'')])))"

definition page_content :: "jsval \<Rightarrow> js_error + tool_result" where
  "page_content page =
     (case get_prop page ''revisions'' of Inl e \<Rightarrow> Inl e | Inr revs \<Rightarrow>
     (case get_first revs of Inl e \<Rightarrow> Inl e | Inr revision \<Rightarrow>
     (case get_path revision [''slots'', ''main'', ''content''] of Inl e \<Rightarrow> Inl e | Inr content \<Rightarrow>
     (case get_prop page ''title'' of Inl e \<Rightarrow> Inl e | Inr t \<Rightarrow>
     (case pick_obj [(''timestamp'', ''timestamp''), (''user'', ''user''), (''comment'', ''comment'')] revision of
        Inl e \<Rightarrow> Inl e
      | Inr lastEdit \<Rightarrow>
          Inr (json_result (JObj [(''title'', t), (''content'', content), (''lastEdit'', lastEdit)])))))))"

definition read_page_case :: "environment \<Rightarrow> tool_arguments \<Rightarrow> world \<Rightarrow> (js_error + tool_result) \<times> world" where
  "read_page_case env a =
     await (getPage env (of_opt (arg_title a))) (\<lambda>result.
     await (expr (first_page result)) (\<lambda>page.
     await (expr (get_prop page ''missing'')) (\<lambda>missing.
       if truthy missing then expr (missing_result page) else expr (page_content page))))"

definition edit_result :: "jsval \<Rightarrow> jsval \<Rightarrow> js_error + tool_result" where
  "edit_result t result =
     (case get_path result [''edit'', ''result''] of Inl e \<Rightarrow> Inl e | Inr r \<Rightarrow>
     (case get_path result [''edit'', ''newrevid''] of Inl e \<Rightarrow> Inl e | Inr n \<Rightarrow>
        Inr (json_result (JObj [(''title'', t), (''result'', r), (''newRevId'', n),
                                (''success'', JBool (r = JStr ''Success''))]))))"

definition create_page_case :: "environment \<Rightarrow> tool_arguments \<Rightarrow> world \<Rightarrow> (js_error + tool_result) \<times> world" where
  "create_page_case env a =
     await (createPage env (of_opt (arg_title a)) (of_opt (arg_content a))
              (JStr (with_default ''Created via MCP'' (arg_summary a)))) (\<lambda>result.
       expr (edit_result (of_opt (arg_title a)) result))"

definition update_page_case :: "environment \<Rightarrow> tool_arguments \<Rightarrow> world \<Rightarrow> (js_error + tool_result) \<times> world" where
  "update_page_case env a =
     await (updatePage env (of_opt (arg_title a)) (of_opt (arg_content a))
              (JStr (with_default ''Updated via MCP'' (arg_summary a)))) (\<lambda>result.
       expr (edit_result (of_opt (arg_title a)) result))"

definition page_revisions :: "jsval \<Rightarrow> js_error + tool_result" where
  "page_revisions page =
     (case get_prop page ''revisions'' of Inl e \<Rightarrow> Inl e | Inr revs \<Rightarrow>
     (case array_map ''page.revisions''
             (pick_obj [(''id'', ''revid''), (''timestamp'', ''timestamp''), (''user'', ''user''),
                        (''comment'', ''comment'')]) revs of
        Inl e \<Rightarrow> Inl e
      | Inr revisions \<Rightarrow>
     (case get_prop page ''title'' of Inl e \<Rightarrow> Inl e | Inr t \<Rightarrow>
        Inr (json_result (JObj [(''title'', t), (''revisions'', revisions)])))))"

definition get_page_history_case :: "environment \<Rightarrow> tool_arguments \<Rightarrow> world \<Rightarrow> (js_error + tool_result) \<times> world" where
  "get_page_history_case env a =
     await (getPageHistory env (of_opt (arg_title a)) (JNum (with_default 10 (arg_limit a)))) (\<lambda>result.
     await (expr (first_page result)) (\<lambda>page.
     await (expr (get_prop page ''missing'')) (\<lambda>missing.
       if truthy missing then expr (missing_result page) else expr (page_revisions page))))"

definition page_categories :: "jsval \<Rightarrow> js_error + tool_result" where
  "page_categories page =
     (case get_prop page ''categories'' of Inl e \<Rightarrow> Inl e | Inr cats \<Rightarrow>
     (case (if truthy cats
            then array_map ''page.categories'' (\<lambda>cat. get_prop cat ''title'') cats
            else Inr (JArr [])) of
        Inl e \<Rightarrow> Inl e
      | Inr categories \<Rightarrow>
     (case get_prop page ''title'' of Inl e \<Rightarrow> Inl e | Inr t \<Rightarrow>
        Inr (json_result (JObj [(''title'', t), (''categories'', categories)])))))"

definition get_categories_case :: "environment \<Rightarrow> tool_arguments \<Rightarrow> world \<Rightarrow> (js_error + tool_result) \<times> world" where
  "get_categories_case env a =
     await (getCategories env (of_opt (arg_title a))) (\<lambda>result.
     await (expr (first_page result)) (\<lambda>page.
     await (expr (get_prop page ''missing'')) (\<lambda>missing.
       if truthy missing then expr (missing_result page) else expr (page_categories page))))"

text \<open>The \<^verbatim>\<open>switch\<close> on the tool name.\<close>

definition dispatch :: "environment \<Rightarrow> string \<Rightarrow> tool_arguments \<Rightarrow> world \<Rightarrow> (js_error + tool_result) \<times> world" where
  "dispatch env n a =
     (if n = ''search_pages'' then search_pages_case env a
      else if n = ''read_page'' then read_page_case env a
      else if n = ''create_page'' then create_page_case env a
      else if n = ''update_page'' then update_page_case env a
      else if n = ''get_page_history'' then get_page_history_case env a
      else if n = ''get_categories'' then get_categories_case env a
      else expr (Inl (Error (''Unknown tool: '' @ n))))"

text \<open>The body of the \<^verbatim>\<open>try\<close> block.\<close>

definition try_body :: "environment \<Rightarrow> call_request \<Rightarrow> world \<Rightarrow> (js_error + tool_result) \<times> world" where
  "try_body env rq =
     (case call_arguments rq of
        None \<Rightarrow> expr (Inl (Error ''Arguments are required''))
      | Some a \<Rightarrow>
          (if call_name rq \<noteq> ''search_pages'' \<and> call_name rq \<noteq> ''read_page''
           then await (login env) (\<lambda>ok. dispatch env (call_name rq) a)
           else dispatch env (call_name rq) a))"

text \<open>The handler registered for \<^verbatim>\<open>CallToolRequestSchema\<close>: the \<^verbatim>\<open>try\<close> with its \<^verbatim>\<open>catch\<close>.\<close>

definition callTool :: "environment \<Rightarrow> call_request \<Rightarrow> world \<Rightarrow> tool_result \<times> world" where
  "callTool env rq w =
     (case try_body env rq w of
        (Inl e, w') \<Rightarrow> (error_result e, w')
      | (Inr r, w') \<Rightarrow> (r, w'))"

section \<open>Remotes and sessions used in the examples\<close>

text \<open>A remote that gives the same answer to every request.\<close>

definition always :: "(real \<Rightarrow> string) \<Rightarrow> response \<Rightarrow> environment" where
  "always num resp = \<lparr>number_text = num, remote = (\<lambda>sent. Inr resp)\<rparr>"

text \<open>A remote that answers the \<open>n\<close>-th request with the \<open>n\<close>-th reply and then hangs up.\<close>

definition scripted :: "(real \<Rightarrow> string) \<Rightarrow> response list \<Rightarrow> environment" where
  "scripted num rs =
     \<lparr>number_text = num,
      remote = (\<lambda>sent. if 0 < length sent \<and> length sent \<le> length rs
                       then Inr (rs ! (length sent - 1))
                       else Inl ''socket hang up'')\<rparr>"

text \<open>
  What \<^verbatim>\<open>String\<close> prints for the numbers the examples use, a fraction and a number of
  large magnitude among them; the empty string stands in for every other number.
\<close>

definition node_text :: "real \<Rightarrow> string" where
  "node_text x =
     (if x = 50 then ''50'' else if x = 10 then ''10'' else if x = 0 then ''0''
      else if x = - 5 then ''-5'' else if x = 5 / 2 then ''2.5''
      else if x = - 1000000000000000000000 then ''-1e+21'' else [])"

text \<open>The body of a MediaWiki error reply.\<close>

definition error_body :: "string \<Rightarrow> string \<Rightarrow> jsval" where
  "error_body code info = JObj [(''error'', JObj [(''code'', JStr code), (''info'', JStr info)])]"

definition reply :: "string option \<Rightarrow> jsval \<Rightarrow> response" where
  "reply ck data = \<lparr>set_cookie = ck, json_body = Inr data\<rparr>"

definition anonymous :: client where
  "anonymous = new_client ''https://wiki.example/api.php'' None None"

definition editor :: client where
  "editor = new_client ''https://wiki.example/api.php'' (Some ''Dotta'') (Some ''hunter2'')"

definition badtoken_reply :: response where
  "badtoken_reply = reply (Some ''sid=1'') (error_body ''badtoken'' ''Invalid CSRF token.'')"

definition token_reply :: response where
  "token_reply =
     reply (Some ''session=abc'')
       (JObj [(''query'', JObj [(''tokens'', JObj [(''csrftoken'', JStr ''abc123'')])])])"

definition login_token_reply :: response where
  "login_token_reply =
     reply (Some ''session=abc'')
       (JObj [(''query'', JObj [(''tokens'', JObj [(''logintoken'', JStr ''lt42'')])])])"

definition login_success_reply :: response where
  "login_success_reply =
     reply (Some ''user=Dotta'')
       (JObj [(''login'', JObj [(''result'', JStr ''Success''), (''lgusername'', JStr ''Dotta'')])])"

definition login_failed_reply :: response where
  "login_failed_reply =
     reply None
       (JObj [(''login'', JObj [(''result'', JStr ''Failed''), (''reason'', JStr ''Incorrect password'')])])"

definition no_arguments :: tool_arguments where
  "no_arguments =
     \<lparr>arg_query = None, arg_title = None, arg_content = None, arg_summary = None, arg_limit = None\<rparr>"

definition search_call :: "real option \<Rightarrow> call_request" where
  "search_call l =
     \<lparr>call_name = ''search_pages'',
      call_arguments = Some (no_arguments\<lparr>arg_query := Some ''wizard'', arg_limit := l\<rparr>)\<rparr>"

definition search_request :: "string \<Rightarrow> request" where
  "search_request n =
     \<lparr>req_method = GET, req_url = ''https://wiki.example/api.php'', req_cookie = None,
      req_entries =
        [(''action'', ''query''), (''list'', ''search''), (''srsearch'', ''wizard''),
         (''srlimit'', n), (''srinfo'', ''totalhits''),
         (''srprop'', ''size|wordcount|timestamp|snippet''), (''format'', ''json''),
         (''formatversion'', ''2'')]\<rparr>"

definition search_reply :: response where
  "search_reply =
     reply None
       (JObj [(''query'',
          JObj [(''searchinfo'', JObj [(''totalhits'', JNum 1)]),
                (''search'', JArr [JObj [(''title'', JStr ''Dotta''), (''snippet'', JStr ''a wizard''),
                                         (''size'', JNum 1200), (''wordcount'', JNum 200),
                                         (''timestamp'', JStr ''2024-01-01T00:00:00Z'')]])])])"

definition edit_reply :: response where
  "edit_reply =
     reply None
       (JObj [(''edit'', JObj [(''result'', JStr ''Success''), (''title'', JStr ''Dotta''),
                               (''newrevid'', JNum 42157)])])"

definition edit_call :: "string \<Rightarrow> call_request" where
  "edit_call n =
     \<lparr>call_name = n,
      call_arguments =
        Some (no_arguments\<lparr>arg_title := Some ''Dotta'', arg_content := Some ''A wizard.''\<rparr>)\<rparr>"

definition dotta_revision :: jsval where
  "dotta_revision =
     JObj [(''timestamp'', JStr ''2024-01-01T00:00:00Z''), (''user'', JStr ''Merlin''),
           (''comment'', JStr ''typo''),
           (''slots'', JObj [(''main'', JObj [(''content'', JStr ''A wizard.'')])])]"

definition dotta_page :: jsval where
  "dotta_page =
     JObj [(''pageid'', JNum 7), (''title'', JStr ''Dotta''), (''revisions'', JArr [dotta_revision])]"

definition nobody_page :: jsval where
  "nobody_page = JObj [(''title'', JStr ''Nobody''), (''missing'', JBool True)]"

definition pages_body :: "jsval \<Rightarrow> jsval" where
  "pages_body page = JObj [(''query'', JObj [(''pages'', JArr [page])])]"

definition read_call :: "string \<Rightarrow> call_request" where
  "read_call t =
     \<lparr>call_name = ''read_page'', call_arguments = Some (no_arguments\<lparr>arg_title := Some t\<rparr>)\<rparr>"

definition read_request :: "string \<Rightarrow> request" where
  "read_request t =
     \<lparr>req_method = GET, req_url = ''https://wiki.example/api.php'', req_cookie = None,
      req_entries = [(''action'', ''query''), (''prop'', ''revisions''), (''titles'', t),
                     (''rvprop'', ''content|timestamp|user|comment''), (''rvslots'', ''main''),
                     (''format'', ''json''), (''formatversion'', ''2'')]\<rparr>"

definition unknown_call :: call_request where
  "unknown_call = \<lparr>call_name = ''delete_page'', call_arguments = Some no_arguments\<rparr>"

definition login_token_request :: request where
  "login_token_request =
     \<lparr>req_method = GET, req_url = ''https://wiki.example/api.php'', req_cookie = None,
      req_entries = [(''action'', ''query''), (''meta'', ''tokens''), (''type'', ''login''),
                     (''format'', ''json''), (''formatversion'', ''2'')]\<rparr>"

definition login_request :: request where
  "login_request =
     \<lparr>req_method = POST, req_url = ''https://wiki.example/api.php'',
      req_cookie = Some ''session=abc'',
      req_entries = [(''action'', ''login''), (''lgname'', ''Dotta''), (''lgpassword'', ''hunter2''),
                     (''lgtoken'', ''lt42''), (''format'', ''json''), (''formatversion'', ''2'')]\<rparr>"

definition no_arguments_call :: call_request where
  "no_arguments_call = \<lparr>call_name = ''read_page'', call_arguments = None\<rparr>"

definition stale_session :: client where
  "stale_session = anonymous\<lparr>editToken := JStr ''stale''\<rparr>"

definition cookie_reply :: "string \<Rightarrow> response" where
  "cookie_reply ck = reply (Some ck) (JObj [(''batchcomplete'', JBool True)])"

definition query_request :: "string option \<Rightarrow> request" where
  "query_request ck =
     \<lparr>req_method = GET, req_url = ''https://wiki.example/api.php'', req_cookie = ck,
      req_entries = [(''action'', ''query''), (''meta'', ''tokens''), (''format'', ''json''),
                     (''formatversion'', ''2'')]\<rparr>"

definition three_cookies :: environment where
  "three_cookies = scripted node_text [cookie_reply ''a=1'', cookie_reply ''b=2'', cookie_reply ''a=1'']"

section \<open>Auxiliary notions\<close>

text \<open>A step that only ever adds to the end of the cookie jar.\<close>

definition jar_grows :: "(world \<Rightarrow> 'a \<times> world) \<Rightarrow> bool" where
  "jar_grows m = (\<forall>w. \<exists>added. cookies (fst (snd (m w))) = cookies (fst w) @ added)"

text \<open>A value that \<^verbatim>\<open>String\<close> converts without calling into it.\<close>

fun primitive :: "jsval \<Rightarrow> bool" where
  "primitive (JArr xs) = False"
| "primitive (JObj kvs) = False"
| "primitive v = True"

section \<open>Basic facts\<close>

lemma check_body_cases:
  assumes "get_prop data ''error'' = Inr err"
  shows "check_body num data = (if truthy err then Inl (api_error num err) else Inr data)"
  using assms by (simp add: check_body_def)

lemma check_body_Inr: "check_body num data = Inr d \<Longrightarrow> d = data"
  by (auto simp: check_body_def split: sum.splits if_splits)

lemma makeApiCall_reply:
  assumes "build_request (number_text env) c params m = Inr req" and "remote env (sent @ [req]) = Inr resp"
    and "json_body resp = Inr data"
  shows "makeApiCall env params m (c, sent) = (check_body (number_text env) data, (save_cookies resp c, sent @ [req]))"
  using assms by (simp add: makeApiCall_def)

lemma makeApiCall_Inr:
  assumes "makeApiCall env params m (c, sent) = (Inr data, w')"
  shows "\<exists>req resp. build_request (number_text env) c params m = Inr req \<and> remote env (sent @ [req]) = Inr resp
           \<and> json_body resp = Inr data \<and> check_body (number_text env) data = Inr data
           \<and> w' = (save_cookies resp c, sent @ [req])"
  using assms by (auto simp: makeApiCall_def split: sum.splits dest: check_body_Inr)

lemma build_request_fields:
  assumes "build_request num c params m = Inr req"
  shows "req_method req = m \<and> req_url req = apiUrl c \<and> req_cookie req = cookie_header c"
  using assms by (auto simp: build_request_def split: sum.splits)

lemma cookies_save_cookies:
  "cookies (save_cookies resp c) =
     cookies c @ (case set_cookie resp of None \<Rightarrow> [] | Some s \<Rightarrow> if s = [] then [] else [s])"
  by (simp add: save_cookies_def split: option.splits)

lemma save_cookies_fields:
  "apiUrl (save_cookies resp c) = apiUrl c" "username (save_cookies resp c) = username c"
  "password (save_cookies resp c) = password c" "loggedIn (save_cookies resp c) = loggedIn c"
  "editToken (save_cookies resp c) = editToken c"
  by (simp_all add: save_cookies_def split: option.splits)

lemma api_error_strings:
  assumes "get_prop err ''code'' = Inr code" and "to_string num code = Inr cs"
    and "get_prop err ''info'' = Inr info" and "to_string num info = Inr is"
  shows "api_error num err = Error (''MediaWiki API error: '' @ cs @ '' - '' @ is)"
  using assms by (simp add: api_error_def)

lemma makeApiCall_log:
  "build_request (number_text env) c params m = Inr req \<Longrightarrow> snd (snd (makeApiCall env params m (c, sent))) = sent @ [req]"
  by (simp add: makeApiCall_def split: sum.splits)

lemma makeApiCall_jar:
  assumes "build_request (number_text env) c params m = Inr req" and "remote env (sent @ [req]) = Inr resp"
  shows "fst (snd (makeApiCall env params m (c, sent))) = save_cookies resp c"
  using assms by (simp add: makeApiCall_def split: sum.splits)

lemma makeApiCall_sent:
  assumes "makeApiCall env params m (c, sent) = (Inr data, w')" and "build_request (number_text env) c params m = Inr req"
  shows "snd w' = sent @ [req] \<and> editToken (fst w') = editToken c \<and> loggedIn (fst w') = loggedIn c
       \<and> username (fst w') = username c \<and> password (fst w') = password c \<and> apiUrl (fst w') = apiUrl c"
  using makeApiCall_Inr [OF assms(1)] assms(2) by (auto simp: save_cookies_fields)

lemma cookie_header_join:
  "cookie_header c = (if cookies c = [] then None else Some (join_with ''; '' (cookies c)))"
  by (simp add: cookie_header_def)

lemma await_expr: "await (expr r) k s = (case r of Inl e \<Rightarrow> (Inl e, s) | Inr x \<Rightarrow> k x s)"
  by (simp add: await_def expr_def split: sum.splits)

lemma snd_await_pure:
  assumes "\<And>x s. snd (k x s) = s"
  shows "snd (await m k w) = snd (m w)"
  using assms by (cases "m w") (auto simp: await_def split: sum.splits)

lemma fst_await_Inl: "fst (m w) = Inl e \<Longrightarrow> fst (await m k w) = Inl e"
  by (cases "m w") (simp add: await_def)

lemma snd_callTool: "snd (callTool env rq w) = snd (try_body env rq w)"
  by (cases "try_body env rq w") (auto simp: callTool_def split: sum.splits)

lemma callTool_Inl: "try_body env rq w = (Inl e, w1) \<Longrightarrow> callTool env rq w = (error_result e, w1)"
  by (simp add: callTool_def)

lemma fst_callTool_Inl: "fst (try_body env rq w) = Inl e \<Longrightarrow> fst (callTool env rq w) = error_result e"
  by (cases "try_body env rq w") (simp add: callTool_def)

lemmas example_defs =
  always_def scripted_def error_body_def reply_def anonymous_def editor_def badtoken_reply_def
  new_client_def

lemmas call_defs =
  makeApiCall_def build_request_def cookie_header_def save_cookies_def check_body_def
  api_error_def

section \<open>makeApiCall\<close>

text \<open>
  C1 (as amended). Whenever the remote answers a call with a JSON body whose \<^verbatim>\<open>error\<close>
  property can be read, a non-empty \<^verbatim>\<open>Set-Cookie\<close> header of the response is appended to
  the cookie jar, whatever the body holds; then, if \<^verbatim>\<open>error\<close> is truthy, the call
  fails with \<^verbatim>\<open>MediaWiki API error: <code> - <info>\<close> built from that object, and
  otherwise it returns the parsed body unchanged. Exactly one request has been sent.
\<close>

theorem makeApiCall_on_reply:
  assumes "build_request (number_text env) c params m = Inr req" and "remote env (sent @ [req]) = Inr resp"
    and "json_body resp = Inr data" and "get_prop data ''error'' = Inr err"
  shows "makeApiCall env params m (c, sent) =
           (if truthy err then Inl (api_error (number_text env) err) else Inr data, (save_cookies resp c, sent @ [req]))
       \<and> cookies (save_cookies resp c) =
           cookies c @ (case set_cookie resp of None \<Rightarrow> [] | Some s \<Rightarrow> if s = [] then [] else [s])
       \<and> (\<forall>code cs info is.
             get_prop err ''code'' = Inr code \<and> to_string (number_text env) code = Inr cs \<and>
             get_prop err ''info'' = Inr info \<and> to_string (number_text env) info = Inr is
             \<longrightarrow> api_error (number_text env) err = Error (''MediaWiki API error: '' @ cs @ '' - '' @ is))"
proof -
  have "makeApiCall env params m (c, sent) = (check_body (number_text env) data, (save_cookies resp c, sent @ [req]))"
    using assms(1-3) by (rule makeApiCall_reply)
  then show ?thesis
    using assms(4) by (simp add: check_body_cases cookies_save_cookies api_error_strings)
qed

text \<open>
  The amended C1 at work: a reply that sets a cookie and reports \<^verbatim>\<open>badtoken\<close> makes the
  call fail with the MediaWiki message, and the cookie is in the jar afterwards.
\<close>

theorem makeApiCall_on_reply_witness:
  "makeApiCall (always node_text badtoken_reply) edit_token_params GET (anonymous, []) =
     (Inl (Error ''MediaWiki API error: badtoken - Invalid CSRF token.''),
      (anonymous\<lparr>cookies := [''sid=1'']\<rparr>,
       [\<lparr>req_method = GET, req_url = ''https://wiki.example/api.php'', req_cookie = None,
         req_entries = [(''action'', ''query''), (''meta'', ''tokens''), (''format'', ''json''),
                        (''formatversion'', ''2'')]\<rparr>]))"
  using makeApiCall_on_reply [where env = "always node_text badtoken_reply" and c = anonymous
      and params = edit_token_params and m = GET
      and req = "\<lparr>req_method = GET, req_url = ''https://wiki.example/api.php'', req_cookie = None,
        req_entries = [(''action'', ''query''), (''meta'', ''tokens''), (''format'', ''json''),
                       (''formatversion'', ''2'')]\<rparr>"
      and sent = "[]" and resp = badtoken_reply
      and data = "error_body ''badtoken'' ''Invalid CSRF token.''"
      and err = "JObj [(''code'', JStr ''badtoken''), (''info'', JStr ''Invalid CSRF token.'')]"]
  by (simp add: example_defs call_defs edit_token_params_def)

text \<open>
  C1 as stated fails: on the error branch the cookie jar is not left unchanged. The
  \<^verbatim>\<open>Set-Cookie\<close> header is pushed before the body is parsed.
\<close>

theorem makeApiCall_error_changes_jar:
  "fst (makeApiCall (always node_text badtoken_reply) edit_token_params GET (anonymous, [])) =
     Inl (Error ''MediaWiki API error: badtoken - Invalid CSRF token.'')
   \<and> cookies anonymous = []
   \<and> cookies (fst (snd (makeApiCall (always node_text badtoken_reply) edit_token_params GET (anonymous, []))))
       = [''sid=1'']"
  by (simp add: example_defs call_defs edit_token_params_def)

section \<open>getEditToken\<close>

lemma build_edit_token_request:
  "build_request num c edit_token_params GET =
     Inr \<lparr>req_method = GET, req_url = apiUrl c, req_cookie = cookie_header c,
          req_entries = [(''action'', ''query''), (''meta'', ''tokens''), (''format'', ''json''),
                         (''formatversion'', ''2'')]\<rparr>"
  by (simp add: build_request_def edit_token_params_def)

lemma getEditToken_cached:
  "truthy (editToken (fst w)) \<Longrightarrow> getEditToken env w = (Inr (editToken (fst w)), w)"
  by (simp add: getEditToken_def)

lemma getEditToken_times_cached:
  "truthy (editToken (fst w)) \<Longrightarrow>
     getEditToken_times env n w = (replicate n (Inr (editToken (fst w))), w)"
  by (induction n) (simp_all add: getEditToken_cached)

lemma getEditToken_fetch:
  assumes "\<not> truthy (editToken c)" and "getEditToken env (c, sent) = (Inr tok, w1)"
  shows "editToken (fst w1) = tok
       \<and> snd w1 = sent @ [\<lparr>req_method = GET, req_url = apiUrl c, req_cookie = cookie_header c,
            req_entries = [(''action'', ''query''), (''meta'', ''tokens''), (''format'', ''json''),
                           (''formatversion'', ''2'')]\<rparr>]"
proof -
  obtain r w0 where call: "makeApiCall env edit_token_params GET (c, sent) = (r, w0)"
    by (cases "makeApiCall env edit_token_params GET (c, sent)")
  show ?thesis
  proof (cases r)
    case (Inl e)
    with call assms show ?thesis by (simp add: getEditToken_def await_def)
  next
    case (Inr tr)
    with call have sent: "snd w0 = sent @ [\<lparr>req_method = GET, req_url = apiUrl c, req_cookie = cookie_header c,
            req_entries = [(''action'', ''query''), (''meta'', ''tokens''), (''format'', ''json''),
                           (''formatversion'', ''2'')]\<rparr>]"
      using makeApiCall_sent [OF _ build_edit_token_request] by blast
    from Inr call assms sent show ?thesis
      by (auto simp: getEditToken_def await_def expr_def split: sum.splits)
  qed
qed

text \<open>
  C2. Starting with no token cached, once the first call of getEditToken has returned a
  non-empty token string, \<open>N\<close> calls in sequence (\<open>N \<ge> 1\<close>) all return that same string
  and have sent exactly one request, the GET with \<^verbatim>\<open>action=query\<close>, \<^verbatim>\<open>meta=tokens\<close>; a
  further call returns the token and leaves the session and the log of requests as they
  are.
\<close>

theorem getEditToken_memoized:
  assumes "\<not> truthy (editToken c)" and "getEditToken env (c, sent) = (Inr (JStr tok), w1)"
    and "tok \<noteq> []" and "1 \<le> N"
  shows "getEditToken_times env N (c, sent) = (replicate N (Inr (JStr tok)), w1)
       \<and> snd w1 = sent @ [\<lparr>req_method = GET, req_url = apiUrl c, req_cookie = cookie_header c,
            req_entries = [(''action'', ''query''), (''meta'', ''tokens''), (''format'', ''json''),
                           (''formatversion'', ''2'')]\<rparr>]
       \<and> getEditToken env w1 = (Inr (JStr tok), w1)"
proof -
  from getEditToken_fetch [OF assms(1,2)]
  have tok: "editToken (fst w1) = JStr tok"
    and log: "snd w1 = sent @ [\<lparr>req_method = GET, req_url = apiUrl c, req_cookie = cookie_header c,
            req_entries = [(''action'', ''query''), (''meta'', ''tokens''), (''format'', ''json''),
                           (''formatversion'', ''2'')]\<rparr>]"
    by simp_all
  from tok assms(3) have cached: "truthy (editToken (fst w1))" by simp
  obtain n where N: "N = Suc n" using assms(4) by (cases N) auto
  have "getEditToken_times env N (c, sent) = (replicate N (Inr (JStr tok)), w1)"
    using assms(2) getEditToken_times_cached [OF cached, of env n] tok by (simp add: N)
  moreover have "getEditToken env w1 = (Inr (JStr tok), w1)"
    using getEditToken_cached [OF cached, of env] tok by simp
  ultimately show ?thesis using log by simp
qed

text \<open>Three calls against a remote that would answer only one request.\<close>

theorem getEditToken_memoized_witness:
  "getEditToken_times (scripted node_text [token_reply]) 3 (anonymous, []) =
     ([Inr (JStr ''abc123''), Inr (JStr ''abc123''), Inr (JStr ''abc123'')],
      (anonymous\<lparr>editToken := JStr ''abc123'', cookies := [''session=abc'']\<rparr>,
       [\<lparr>req_method = GET, req_url = ''https://wiki.example/api.php'', req_cookie = None,
         req_entries = [(''action'', ''query''), (''meta'', ''tokens''), (''format'', ''json''),
                        (''formatversion'', ''2'')]\<rparr>]))"
  using getEditToken_memoized [of anonymous "scripted node_text [token_reply]" "[]" "''abc123''"
      "(anonymous\<lparr>editToken := JStr ''abc123'', cookies := [''session=abc'']\<rparr>,
       [\<lparr>req_method = GET, req_url = ''https://wiki.example/api.php'', req_cookie = None,
         req_entries = [(''action'', ''query''), (''meta'', ''tokens''), (''format'', ''json''),
                        (''formatversion'', ''2'')]\<rparr>])" 3]
  by (simp add: example_defs call_defs token_reply_def getEditToken_def edit_token_params_def
      await_def expr_def numeral_3_eq_3)

section \<open>login\<close>

lemma build_login_token_request:
  "build_request num c login_token_params GET =
     Inr \<lparr>req_method = GET, req_url = apiUrl c, req_cookie = cookie_header c,
          req_entries = [(''action'', ''query''), (''meta'', ''tokens''), (''type'', ''login''),
                         (''format'', ''json''), (''formatversion'', ''2'')]\<rparr>"
  by (simp add: build_request_def login_token_params_def)

lemma build_login_request:
  assumes "username c = Some u" and "password c = Some p"
  shows "build_request num c (login_params c (JStr lt)) POST =
     Inr \<lparr>req_method = POST, req_url = apiUrl c, req_cookie = cookie_header c,
          req_entries = [(''action'', ''login''), (''lgname'', u), (''lgpassword'', p), (''lgtoken'', lt),
                         (''format'', ''json''), (''formatversion'', ''2'')]\<rparr>"
  using assms by (simp add: build_request_def login_params_def)

lemma login_anonymous:
  "\<not> truthy_opt (username c) \<or> \<not> truthy_opt (password c) \<Longrightarrow> login env (c, sent) = (Inr False, (c, sent))"
  by (auto simp: login_def)

lemma login_again:
  "truthy_opt (username c) \<Longrightarrow> truthy_opt (password c) \<Longrightarrow> loggedIn c \<Longrightarrow>
     login env (c, sent) = (Inr True, (c, sent))"
  by (simp add: login_def)

lemma login_handshake:
  assumes "truthy_opt (username c)" and "truthy_opt (password c)" and "\<not> loggedIn c"
    and "makeApiCall env login_token_params GET (c, sent) = (Inr tokenResponse, (c1, sent1))"
    and "get_path tokenResponse [''query'', ''tokens'', ''logintoken''] = Inr loginToken"
    and "makeApiCall env (login_params c1 loginToken) POST (c1, sent1) = (Inr loginResponse, (c2, sent2))"
    and "get_path loginResponse [''login'', ''result''] = Inr result"
  shows "login env (c, sent) =
           (if result = JStr ''Success'' then (Inr True, (c2\<lparr>loggedIn := True\<rparr>, sent2))
            else (Inl (login_failed (number_text env) loginResponse), (c2, sent2)))"
  using assms by (simp add: login_def await_def expr_def)

lemma login_handshake_requests:
  assumes "username c = Some u" and "password c = Some p"
    and "makeApiCall env login_token_params GET (c, sent) = (Inr tokenResponse, (c1, sent1))"
    and "makeApiCall env (login_params c1 (JStr lt)) POST (c1, sent1) = (Inr loginResponse, (c2, sent2))"
  shows "sent2 = sent @
           [\<lparr>req_method = GET, req_url = apiUrl c, req_cookie = cookie_header c,
             req_entries = [(''action'', ''query''), (''meta'', ''tokens''), (''type'', ''login''),
                            (''format'', ''json''), (''formatversion'', ''2'')]\<rparr>,
            \<lparr>req_method = POST, req_url = apiUrl c, req_cookie = cookie_header c1,
             req_entries = [(''action'', ''login''), (''lgname'', u), (''lgpassword'', p), (''lgtoken'', lt),
                            (''format'', ''json''), (''formatversion'', ''2'')]\<rparr>]
         \<and> loggedIn c2 = loggedIn c"
proof -
  from makeApiCall_sent [OF assms(3) build_login_token_request]
  have one: "sent1 = sent @ [\<lparr>req_method = GET, req_url = apiUrl c, req_cookie = cookie_header c,
             req_entries = [(''action'', ''query''), (''meta'', ''tokens''), (''type'', ''login''),
                            (''format'', ''json''), (''formatversion'', ''2'')]\<rparr>]"
    and same: "username c1 = Some u" "password c1 = Some p" "apiUrl c1 = apiUrl c" "loggedIn c1 = loggedIn c"
    using assms(1,2) by simp_all
  from makeApiCall_sent [OF assms(4) build_login_request [OF same(1,2)]]
  show ?thesis using one same by simp
qed

lemma login_failed_reason:
  assumes "get_path loginResponse [''login'', ''reason''] = Inr reason" and "to_string num reason = Inr s"
  shows "login_failed num loginResponse = Error (''Login failed: '' @ s)"
  using assms by (simp add: login_failed_def)

text \<open>
  C3. Without a user name or a password login returns \<^verbatim>\<open>false\<close> and sends nothing; when
  already logged in it returns \<^verbatim>\<open>true\<close> and sends nothing. Otherwise, when the remote
  answers the token request with a login token and answers the login request with a
  result, exactly two requests have been sent, in this order: the GET for the login token
  and the POST with \<^verbatim>\<open>lgname\<close>, \<^verbatim>\<open>lgpassword\<close> and \<^verbatim>\<open>lgtoken\<close>. On the result
  \<^verbatim>\<open>Success\<close> login sets \<open>loggedIn\<close> and returns \<^verbatim>\<open>true\<close>; on any other result it fails
  with \<^verbatim>\<open>Login failed: <reason>\<close> and \<open>loggedIn\<close> stays unset.
\<close>

theorem login_contract:
  "(\<not> truthy_opt (username c) \<or> \<not> truthy_opt (password c) \<longrightarrow>
      login env (c, sent) = (Inr False, (c, sent)))
   \<and> (truthy_opt (username c) \<and> truthy_opt (password c) \<and> loggedIn c \<longrightarrow>
      login env (c, sent) = (Inr True, (c, sent)))
   \<and> (username c = Some u \<and> u \<noteq> [] \<and> password c = Some p \<and> p \<noteq> [] \<and> \<not> loggedIn c \<and>
      makeApiCall env login_token_params GET (c, sent) = (Inr tokenResponse, (c1, sent1)) \<and>
      get_path tokenResponse [''query'', ''tokens'', ''logintoken''] = Inr (JStr lt) \<and>
      makeApiCall env (login_params c1 (JStr lt)) POST (c1, sent1) = (Inr loginResponse, (c2, sent2)) \<and>
      get_path loginResponse [''login'', ''result''] = Inr result \<longrightarrow>
        sent2 = sent @
           [\<lparr>req_method = GET, req_url = apiUrl c, req_cookie = cookie_header c,
             req_entries = [(''action'', ''query''), (''meta'', ''tokens''), (''type'', ''login''),
                            (''format'', ''json''), (''formatversion'', ''2'')]\<rparr>,
            \<lparr>req_method = POST, req_url = apiUrl c, req_cookie = cookie_header c1,
             req_entries = [(''action'', ''login''), (''lgname'', u), (''lgpassword'', p), (''lgtoken'', lt),
                            (''format'', ''json''), (''formatversion'', ''2'')]\<rparr>]
        \<and> (result = JStr ''Success'' \<longrightarrow>
              login env (c, sent) = (Inr True, (c2\<lparr>loggedIn := True\<rparr>, sent2)))
        \<and> (result \<noteq> JStr ''Success'' \<longrightarrow>
              login env (c, sent) = (Inl (login_failed (number_text env) loginResponse), (c2, sent2)) \<and> \<not> loggedIn c2 \<and>
              (\<forall>reason s. get_path loginResponse [''login'', ''reason''] = Inr reason \<and> to_string (number_text env) reason = Inr s
                 \<longrightarrow> login_failed (number_text env) loginResponse = Error (''Login failed: '' @ s))))"
proof (intro conjI impI)
  assume "\<not> truthy_opt (username c) \<or> \<not> truthy_opt (password c)"
  then show "login env (c, sent) = (Inr False, (c, sent))" by (rule login_anonymous)
next
  assume "truthy_opt (username c) \<and> truthy_opt (password c) \<and> loggedIn c"
  then show "login env (c, sent) = (Inr True, (c, sent))" by (simp add: login_again)
next
  assume h: "username c = Some u \<and> u \<noteq> [] \<and> password c = Some p \<and> p \<noteq> [] \<and> \<not> loggedIn c \<and>
      makeApiCall env login_token_params GET (c, sent) = (Inr tokenResponse, (c1, sent1)) \<and>
      get_path tokenResponse [''query'', ''tokens'', ''logintoken''] = Inr (JStr lt) \<and>
      makeApiCall env (login_params c1 (JStr lt)) POST (c1, sent1) = (Inr loginResponse, (c2, sent2)) \<and>
      get_path loginResponse [''login'', ''result''] = Inr result"
  then have creds: "truthy_opt (username c)" "truthy_opt (password c)" by simp_all
  from h have reqs: "sent2 = sent @
           [\<lparr>req_method = GET, req_url = apiUrl c, req_cookie = cookie_header c,
             req_entries = [(''action'', ''query''), (''meta'', ''tokens''), (''type'', ''login''),
                            (''format'', ''json''), (''formatversion'', ''2'')]\<rparr>,
            \<lparr>req_method = POST, req_url = apiUrl c, req_cookie = cookie_header c1,
             req_entries = [(''action'', ''login''), (''lgname'', u), (''lgpassword'', p), (''lgtoken'', lt),
                            (''format'', ''json''), (''formatversion'', ''2'')]\<rparr>]"
    and still: "loggedIn c2 = loggedIn c"
    using login_handshake_requests [of c u p env sent tokenResponse c1 sent1 lt loginResponse c2 sent2]
    by simp_all
  from h creds have run: "login env (c, sent) =
           (if result = JStr ''Success'' then (Inr True, (c2\<lparr>loggedIn := True\<rparr>, sent2))
            else (Inl (login_failed (number_text env) loginResponse), (c2, sent2)))"
    using login_handshake [of c env sent tokenResponse c1 sent1 "JStr lt" loginResponse c2 sent2 result]
    by simp
  show "sent2 = sent @
           [\<lparr>req_method = GET, req_url = apiUrl c, req_cookie = cookie_header c,
             req_entries = [(''action'', ''query''), (''meta'', ''tokens''), (''type'', ''login''),
                            (''format'', ''json''), (''formatversion'', ''2'')]\<rparr>,
            \<lparr>req_method = POST, req_url = apiUrl c, req_cookie = cookie_header c1,
             req_entries = [(''action'', ''login''), (''lgname'', u), (''lgpassword'', p), (''lgtoken'', lt),
                            (''format'', ''json''), (''formatversion'', ''2'')]\<rparr>]"
    by (rule reqs)
  {
    assume "result = JStr ''Success''"
    with run show "login env (c, sent) = (Inr True, (c2\<lparr>loggedIn := True\<rparr>, sent2))" by simp
  }
  {
    assume "result \<noteq> JStr ''Success''"
    with run show "login env (c, sent) = (Inl (login_failed (number_text env) loginResponse), (c2, sent2))" by simp
  }
  from h still show "\<not> loggedIn c2" by simp
  show "\<forall>reason s. get_path loginResponse [''login'', ''reason''] = Inr reason \<and> to_string (number_text env) reason = Inr s
                 \<longrightarrow> login_failed (number_text env) loginResponse = Error (''Login failed: '' @ s)"
    by (simp add: login_failed_reason)
qed

text \<open>
  The three cases of C3 on concrete sessions: no credentials, already logged in, and the
  handshake with the result \<^verbatim>\<open>Success\<close> and with the result \<^verbatim>\<open>Failed\<close>.
\<close>

theorem login_contract_witness:
  "login (always node_text badtoken_reply) (anonymous, []) = (Inr False, (anonymous, []))
   \<and> login (always node_text badtoken_reply) (editor\<lparr>loggedIn := True\<rparr>, []) = (Inr True, (editor\<lparr>loggedIn := True\<rparr>, []))
   \<and> login (scripted node_text [login_token_reply, login_success_reply]) (editor, []) =
       (Inr True,
        (editor\<lparr>loggedIn := True, cookies := [''session=abc'', ''user=Dotta'']\<rparr>,
         [\<lparr>req_method = GET, req_url = ''https://wiki.example/api.php'', req_cookie = None,
           req_entries = [(''action'', ''query''), (''meta'', ''tokens''), (''type'', ''login''),
                          (''format'', ''json''), (''formatversion'', ''2'')]\<rparr>,
          \<lparr>req_method = POST, req_url = ''https://wiki.example/api.php'', req_cookie = Some ''session=abc'',
           req_entries = [(''action'', ''login''), (''lgname'', ''Dotta''), (''lgpassword'', ''hunter2''),
                          (''lgtoken'', ''lt42''), (''format'', ''json''), (''formatversion'', ''2'')]\<rparr>]))
   \<and> fst (login (scripted node_text [login_token_reply, login_failed_reply]) (editor, [])) =
       Inl (Error ''Login failed: Incorrect password'')
   \<and> \<not> loggedIn (fst (snd (login (scripted node_text [login_token_reply, login_failed_reply]) (editor, []))))"
  using login_contract [where c = anonymous and env = "always node_text badtoken_reply" and sent = "[]"]
    login_contract [where c = "editor\<lparr>loggedIn := True\<rparr>" and env = "always node_text badtoken_reply" and sent = "[]"]
    login_contract [where c = editor and env = "scripted node_text [login_token_reply, login_success_reply]"
      and sent = "[]" and u = "''Dotta''" and p = "''hunter2''" and lt = "''lt42''"
      and tokenResponse = "JObj [(''query'', JObj [(''tokens'', JObj [(''logintoken'', JStr ''lt42'')])])]"
      and ?c1.0 = "editor\<lparr>cookies := [''session=abc'']\<rparr>"
      and ?sent1.0 = "[\<lparr>req_method = GET, req_url = ''https://wiki.example/api.php'', req_cookie = None,
           req_entries = [(''action'', ''query''), (''meta'', ''tokens''), (''type'', ''login''),
                          (''format'', ''json''), (''formatversion'', ''2'')]\<rparr>]"
      and loginResponse = "JObj [(''login'', JObj [(''result'', JStr ''Success''), (''lgusername'', JStr ''Dotta'')])]"
      and ?c2.0 = "editor\<lparr>cookies := [''session=abc'', ''user=Dotta'']\<rparr>"
      and ?sent2.0 = "[\<lparr>req_method = GET, req_url = ''https://wiki.example/api.php'', req_cookie = None,
           req_entries = [(''action'', ''query''), (''meta'', ''tokens''), (''type'', ''login''),
                          (''format'', ''json''), (''formatversion'', ''2'')]\<rparr>,
          \<lparr>req_method = POST, req_url = ''https://wiki.example/api.php'', req_cookie = Some ''session=abc'',
           req_entries = [(''action'', ''login''), (''lgname'', ''Dotta''), (''lgpassword'', ''hunter2''),
                          (''lgtoken'', ''lt42''), (''format'', ''json''), (''formatversion'', ''2'')]\<rparr>]"
      and result = "JStr ''Success''"]
    login_contract [where c = editor and env = "scripted node_text [login_token_reply, login_failed_reply]"
      and sent = "[]" and u = "''Dotta''" and p = "''hunter2''" and lt = "''lt42''"
      and tokenResponse = "JObj [(''query'', JObj [(''tokens'', JObj [(''logintoken'', JStr ''lt42'')])])]"
      and ?c1.0 = "editor\<lparr>cookies := [''session=abc'']\<rparr>"
      and ?sent1.0 = "[\<lparr>req_method = GET, req_url = ''https://wiki.example/api.php'', req_cookie = None,
           req_entries = [(''action'', ''query''), (''meta'', ''tokens''), (''type'', ''login''),
                          (''format'', ''json''), (''formatversion'', ''2'')]\<rparr>]"
      and loginResponse = "JObj [(''login'', JObj [(''result'', JStr ''Failed''), (''reason'', JStr ''Incorrect password'')])]"
      and ?c2.0 = "editor\<lparr>cookies := [''session=abc'']\<rparr>"
      and ?sent2.0 = "[\<lparr>req_method = GET, req_url = ''https://wiki.example/api.php'', req_cookie = None,
           req_entries = [(''action'', ''query''), (''meta'', ''tokens''), (''type'', ''login''),
                          (''format'', ''json''), (''formatversion'', ''2'')]\<rparr>,
          \<lparr>req_method = POST, req_url = ''https://wiki.example/api.php'', req_cookie = Some ''session=abc'',
           req_entries = [(''action'', ''login''), (''lgname'', ''Dotta''), (''lgpassword'', ''hunter2''),
                          (''lgtoken'', ''lt42''), (''format'', ''json''), (''formatversion'', ''2'')]\<rparr>]"
      and result = "JStr ''Failed''"]
  by (simp add: example_defs call_defs login_token_reply_def login_success_reply_def
      login_failed_reply_def login_def login_token_params_def login_params_def login_failed_def
      await_def expr_def)

section \<open>search_pages: the limit\<close>

lemma build_search_request:
  "build_request num c
     [(''action'', JStr ''query''), (''list'', JStr ''search''), (''srsearch'', of_opt q),
      (''srlimit'', default_to (JNum 10) (JNum n)), (''srinfo'', JStr ''totalhits''),
      (''srprop'', JStr ''size|wordcount|timestamp|snippet'')] GET =
   Inr \<lparr>req_method = GET, req_url = apiUrl c, req_cookie = cookie_header c,
        req_entries =
          [(''action'', ''query''), (''list'', ''search'')]
          @ (case q of None \<Rightarrow> [] | Some s \<Rightarrow> [(''srsearch'', s)])
          @ [(''srlimit'', num n), (''srinfo'', ''totalhits''),
             (''srprop'', ''size|wordcount|timestamp|snippet''), (''format'', ''json''),
             (''formatversion'', ''2'')]\<rparr>"
  by (cases q) (simp_all add: build_request_def default_to_def)

lemma search_pages_case_log:
  "snd (snd (search_pages_case env a (c, sent))) =
     sent @ [\<lparr>req_method = GET, req_url = apiUrl c, req_cookie = cookie_header c,
        req_entries =
          [(''action'', ''query''), (''list'', ''search'')]
          @ (case arg_query a of None \<Rightarrow> [] | Some s \<Rightarrow> [(''srsearch'', s)])
          @ [(''srlimit'', number_text env (min (with_default 10 (arg_limit a)) 50)), (''srinfo'', ''totalhits''),
             (''srprop'', ''size|wordcount|timestamp|snippet''), (''format'', ''json''),
             (''formatversion'', ''2'')]\<rparr>]"
proof -
  have "snd (search_pages_case env a (c, sent)) =
          snd (searchPages env (of_opt (arg_query a)) (JNum (min (with_default 10 (arg_limit a)) 50)) (c, sent))"
    unfolding search_pages_case_def
    by (rule snd_await_pure) (simp add: await_expr expr_def split: sum.splits)
  then show ?thesis
    by (simp add: searchPages_def makeApiCall_log [OF build_search_request])
qed

lemma search_pages_log:
  assumes "call_name rq = ''search_pages''" and "call_arguments rq = Some a"
  shows "snd (snd (callTool env rq (c, sent))) =
     sent @ [\<lparr>req_method = GET, req_url = apiUrl c, req_cookie = cookie_header c,
        req_entries =
          [(''action'', ''query''), (''list'', ''search'')]
          @ (case arg_query a of None \<Rightarrow> [] | Some s \<Rightarrow> [(''srsearch'', s)])
          @ [(''srlimit'', number_text env (min (with_default 10 (arg_limit a)) 50)), (''srinfo'', ''totalhits''),
             (''srprop'', ''size|wordcount|timestamp|snippet''), (''format'', ''json''),
             (''formatversion'', ''2'')]\<rparr>]"
  using assms by (simp add: snd_callTool try_body_def dispatch_def search_pages_case_log)

text \<open>
  C5. Every \<^verbatim>\<open>search_pages\<close> call sends one request whose \<^verbatim>\<open>srlimit\<close> is what
  \<^verbatim>\<open>String\<close> prints for a number that is at most 50: that number is 10 when the
  \<^verbatim>\<open>limit\<close> argument is absent, and the smaller of \<^verbatim>\<open>limit\<close> and 50 otherwise.
\<close>

theorem search_limit_clamped:
  assumes "call_name rq = ''search_pages''" and "call_arguments rq = Some a"
  shows "\<exists>n. n \<le> 50 \<and> (arg_limit a = None \<longrightarrow> n = 10) \<and> (\<forall>l. arg_limit a = Some l \<longrightarrow> n = min l 50)
     \<and> snd (snd (callTool env rq (c, sent))) =
     sent @ [\<lparr>req_method = GET, req_url = apiUrl c, req_cookie = cookie_header c,
        req_entries =
          [(''action'', ''query''), (''list'', ''search'')]
          @ (case arg_query a of None \<Rightarrow> [] | Some s \<Rightarrow> [(''srsearch'', s)])
          @ [(''srlimit'', number_text env n), (''srinfo'', ''totalhits''),
             (''srprop'', ''size|wordcount|timestamp|snippet''), (''format'', ''json''),
             (''formatversion'', ''2'')]\<rparr>]"
proof (intro exI conjI)
  show "min (with_default 10 (arg_limit a)) 50 \<le> (50::real)" by simp
  show "arg_limit a = None \<longrightarrow> min (with_default 10 (arg_limit a)) 50 = (10::real)"
    by (simp add: with_default_def)
  show "\<forall>l. arg_limit a = Some l \<longrightarrow> min (with_default 10 (arg_limit a)) 50 = min l 50"
    by (simp add: with_default_def)
  show "snd (snd (callTool env rq (c, sent))) =
     sent @ [\<lparr>req_method = GET, req_url = apiUrl c, req_cookie = cookie_header c,
        req_entries =
          [(''action'', ''query''), (''list'', ''search'')]
          @ (case arg_query a of None \<Rightarrow> [] | Some s \<Rightarrow> [(''srsearch'', s)])
          @ [(''srlimit'', number_text env (min (with_default 10 (arg_limit a)) 50)), (''srinfo'', ''totalhits''),
             (''srprop'', ''size|wordcount|timestamp|snippet''), (''format'', ''json''),
             (''formatversion'', ''2'')]\<rparr>]"
    using assms by (rule search_pages_log)
qed

text \<open>A limit of 1000 goes upstream as 50, an absent one as 10.\<close>

theorem search_limit_clamped_witness:
  "snd (snd (callTool (always node_text search_reply) (search_call (Some 1000)) (anonymous, []))) =
     [\<lparr>req_method = GET, req_url = ''https://wiki.example/api.php'', req_cookie = None,
       req_entries =
          [(''action'', ''query''), (''list'', ''search''), (''srsearch'', ''wizard''),
           (''srlimit'', ''50''), (''srinfo'', ''totalhits''),
           (''srprop'', ''size|wordcount|timestamp|snippet''), (''format'', ''json''),
           (''formatversion'', ''2'')]\<rparr>]
   \<and> snd (snd (callTool (always node_text search_reply) (search_call None) (anonymous, []))) =
     [\<lparr>req_method = GET, req_url = ''https://wiki.example/api.php'', req_cookie = None,
       req_entries =
          [(''action'', ''query''), (''list'', ''search''), (''srsearch'', ''wizard''),
           (''srlimit'', ''10''), (''srinfo'', ''totalhits''),
           (''srprop'', ''size|wordcount|timestamp|snippet''), (''format'', ''json''),
           (''formatversion'', ''2'')]\<rparr>]"
proof -
  have sizes: "number_text (always node_text search_reply) 50 = ''50''"
    "number_text (always node_text search_reply) 10 = ''10''"
    by (simp_all add: always_def node_text_def)
  from search_limit_clamped [of "search_call (Some 1000)"
      "no_arguments\<lparr>arg_query := Some ''wizard'', arg_limit := Some 1000\<rparr>"
      "always node_text search_reply" anonymous "[]"]
  have big: "snd (snd (callTool (always node_text search_reply) (search_call (Some 1000)) (anonymous, []))) =
     [\<lparr>req_method = GET, req_url = ''https://wiki.example/api.php'', req_cookie = None,
       req_entries =
          [(''action'', ''query''), (''list'', ''search''), (''srsearch'', ''wizard''),
           (''srlimit'', ''50''), (''srinfo'', ''totalhits''),
           (''srprop'', ''size|wordcount|timestamp|snippet''), (''format'', ''json''),
           (''formatversion'', ''2'')]\<rparr>]"
    by (auto simp: search_call_def no_arguments_def anonymous_def new_client_def cookie_header_def sizes)
  from search_limit_clamped [of "search_call None"
      "no_arguments\<lparr>arg_query := Some ''wizard'', arg_limit := None\<rparr>"
      "always node_text search_reply" anonymous "[]"]
  have dflt: "snd (snd (callTool (always node_text search_reply) (search_call None) (anonymous, []))) =
     [\<lparr>req_method = GET, req_url = ''https://wiki.example/api.php'', req_cookie = None,
       req_entries =
          [(''action'', ''query''), (''list'', ''search''), (''srsearch'', ''wizard''),
           (''srlimit'', ''10''), (''srinfo'', ''totalhits''),
           (''srprop'', ''size|wordcount|timestamp|snippet''), (''format'', ''json''),
           (''formatversion'', ''2'')]\<rparr>]"
    by (auto simp: search_call_def no_arguments_def anonymous_def new_client_def cookie_header_def sizes)
  from big dflt show ?thesis by simp
qed

text \<open>
  C10. The clamp has no floor: every number \<^verbatim>\<open>limit\<close> of at most 50, whole or fractional,
  zero and negative numbers of any size included, is the number whose text is sent
  upstream as \<^verbatim>\<open>srlimit\<close>.
\<close>

theorem search_limit_passes_through:
  assumes "call_name rq = ''search_pages''" and "call_arguments rq = Some a"
    and "arg_limit a = Some l" and "l \<le> 50"
  shows "snd (snd (callTool env rq (c, sent))) =
     sent @ [\<lparr>req_method = GET, req_url = apiUrl c, req_cookie = cookie_header c,
        req_entries =
          [(''action'', ''query''), (''list'', ''search'')]
          @ (case arg_query a of None \<Rightarrow> [] | Some s \<Rightarrow> [(''srsearch'', s)])
          @ [(''srlimit'', number_text env l), (''srinfo'', ''totalhits''),
             (''srprop'', ''size|wordcount|timestamp|snippet''), (''format'', ''json''),
             (''formatversion'', ''2'')]\<rparr>]"
  using search_pages_log [OF assms(1,2), of env c sent] assms(3,4)
  by (simp add: with_default_def min_def)

text \<open>
  The limits 0, -5, 2.5 and -1e21 go upstream as \<^verbatim>\<open>String\<close> prints them, nothing
  clamped.
\<close>

theorem search_limit_passes_through_witness:
  "snd (snd (callTool (always node_text search_reply) (search_call (Some 0)) (anonymous, []))) =
     [search_request ''0'']
   \<and> snd (snd (callTool (always node_text search_reply) (search_call (Some (- 5))) (anonymous, []))) =
     [search_request ''-5'']
   \<and> snd (snd (callTool (always node_text search_reply) (search_call (Some (5 / 2))) (anonymous, []))) =
     [search_request ''2.5'']
   \<and> snd (snd (callTool (always node_text search_reply)
         (search_call (Some (- 1000000000000000000000))) (anonymous, []))) =
     [search_request ''-1e+21'']"
proof -
  have sent: "snd (snd (callTool (always node_text search_reply) (search_call (Some l)) (anonymous, []))) =
      [search_request (node_text l)]" if "l \<le> 50" for l
    using search_limit_passes_through [of "search_call (Some l)"
        "no_arguments\<lparr>arg_query := Some ''wizard'', arg_limit := Some l\<rparr>" l
        "always node_text search_reply" anonymous "[]"] that
    by (simp add: search_call_def no_arguments_def anonymous_def new_client_def cookie_header_def
        always_def search_request_def)
  have "node_text 0 = ''0''" "node_text (- 5) = ''-5''" "node_text (5 / 2) = ''2.5''"
    "node_text (- 1000000000000000000000) = ''-1e+21''"
    by (simp_all add: node_text_def)
  with sent [of 0] sent [of "- 5"] sent [of "5 / 2"] sent [of "- 1000000000000000000000"]
  show ?thesis by simp
qed

section \<open>createPage and updatePage\<close>

lemma build_create_request:
  "build_request num c (create_params (JStr t) (JStr x) (JStr s) (JStr tok)) POST =
     Inr \<lparr>req_method = POST, req_url = apiUrl c, req_cookie = cookie_header c,
          req_entries = [(''action'', ''edit''), (''title'', t), (''text'', x), (''summary'', s),
                         (''token'', tok), (''createonly'', ''true''), (''format'', ''json''),
                         (''formatversion'', ''2'')]\<rparr>"
  by (simp add: build_request_def create_params_def default_to_def)

lemma build_update_request:
  "build_request num c (update_params (JStr t) (JStr x) (JStr s) (JStr tok)) POST =
     Inr \<lparr>req_method = POST, req_url = apiUrl c, req_cookie = cookie_header c,
          req_entries = [(''action'', ''edit''), (''title'', t), (''text'', x), (''summary'', s),
                         (''token'', tok), (''format'', ''json''), (''formatversion'', ''2'')]\<rparr>"
  by (simp add: build_request_def update_params_def default_to_def)

lemma createPage_log:
  assumes "getEditToken env w = (Inr (JStr tok), (c1, sent1))"
  shows "snd (snd (createPage env (JStr t) (JStr x) (JStr s) w)) =
     sent1 @ [\<lparr>req_method = POST, req_url = apiUrl c1, req_cookie = cookie_header c1,
          req_entries = [(''action'', ''edit''), (''title'', t), (''text'', x), (''summary'', s),
                         (''token'', tok), (''createonly'', ''true''), (''format'', ''json''),
                         (''formatversion'', ''2'')]\<rparr>]"
  using assms by (simp add: createPage_def await_def makeApiCall_log [OF build_create_request])

lemma updatePage_log:
  assumes "getEditToken env w = (Inr (JStr tok), (c1, sent1))"
  shows "snd (snd (updatePage env (JStr t) (JStr x) (JStr s) w)) =
     sent1 @ [\<lparr>req_method = POST, req_url = apiUrl c1, req_cookie = cookie_header c1,
          req_entries = [(''action'', ''edit''), (''title'', t), (''text'', x), (''summary'', s),
                         (''token'', tok), (''format'', ''json''), (''formatversion'', ''2'')]\<rparr>]"
  using assms by (simp add: updatePage_def await_def makeApiCall_log [OF build_update_request])

lemma try_body_anonymous:
  assumes "\<not> truthy_opt (username (fst w)) \<or> \<not> truthy_opt (password (fst w))"
    and "call_arguments rq = Some a"
  shows "try_body env rq w = dispatch env (call_name rq) a w"
proof -
  have "login env w = (Inr False, w)"
    using login_anonymous [of "fst w" env "snd w"] assms(1) by simp
  then show ?thesis
    using assms(2) by (simp add: try_body_def await_def)
qed

lemma create_page_case_log:
  "snd (create_page_case env a w) =
     snd (createPage env (of_opt (arg_title a)) (of_opt (arg_content a))
            (JStr (with_default ''Created via MCP'' (arg_summary a))) w)"
  unfolding create_page_case_def by (rule snd_await_pure) (simp add: expr_def)

lemma update_page_case_log:
  "snd (update_page_case env a w) =
     snd (updatePage env (of_opt (arg_title a)) (of_opt (arg_content a))
            (JStr (with_default ''Updated via MCP'' (arg_summary a))) w)"
  unfolding update_page_case_def by (rule snd_await_pure) (simp add: expr_def)

text \<open>
  C6. createPage and updatePage first obtain the edit token through getEditToken and then
  send one POST with \<^verbatim>\<open>action=edit\<close>, \<^verbatim>\<open>title\<close>, \<^verbatim>\<open>text\<close>, \<^verbatim>\<open>summary\<close> and \<^verbatim>\<open>token\<close>,
  with \<^verbatim>\<open>createonly=true\<close> for create and without it for update; when no token was cached
  the token request precedes it. A session without credentials does the same through the
  \<^verbatim>\<open>create_page\<close> and \<^verbatim>\<open>update_page\<close> tools: login sends nothing and blocks nothing.
\<close>

theorem edit_requests:
  assumes "getEditToken env w = (Inr (JStr tok), (c1, sent1))"
  shows "snd (snd (createPage env (JStr t) (JStr x) (JStr s) w)) =
           sent1 @ [\<lparr>req_method = POST, req_url = apiUrl c1, req_cookie = cookie_header c1,
              req_entries = [(''action'', ''edit''), (''title'', t), (''text'', x), (''summary'', s),
                             (''token'', tok), (''createonly'', ''true''), (''format'', ''json''),
                             (''formatversion'', ''2'')]\<rparr>]
       \<and> snd (snd (updatePage env (JStr t) (JStr x) (JStr s) w)) =
           sent1 @ [\<lparr>req_method = POST, req_url = apiUrl c1, req_cookie = cookie_header c1,
              req_entries = [(''action'', ''edit''), (''title'', t), (''text'', x), (''summary'', s),
                             (''token'', tok), (''format'', ''json''), (''formatversion'', ''2'')]\<rparr>]
       \<and> (\<not> truthy (editToken (fst w)) \<longrightarrow>
             sent1 = snd w @ [\<lparr>req_method = GET, req_url = apiUrl (fst w), req_cookie = cookie_header (fst w),
                req_entries = [(''action'', ''query''), (''meta'', ''tokens''), (''format'', ''json''),
                               (''formatversion'', ''2'')]\<rparr>])
       \<and> ((\<not> truthy_opt (username (fst w)) \<or> \<not> truthy_opt (password (fst w))) \<and>
           call_arguments rq = Some a \<and> arg_title a = Some t \<and> arg_content a = Some x \<longrightarrow>
             (call_name rq = ''create_page'' \<longrightarrow>
                snd (snd (callTool env rq w)) =
                  sent1 @ [\<lparr>req_method = POST, req_url = apiUrl c1, req_cookie = cookie_header c1,
                     req_entries = [(''action'', ''edit''), (''title'', t), (''text'', x),
                                    (''summary'', with_default ''Created via MCP'' (arg_summary a)),
                                    (''token'', tok), (''createonly'', ''true''), (''format'', ''json''),
                                    (''formatversion'', ''2'')]\<rparr>])
           \<and> (call_name rq = ''update_page'' \<longrightarrow>
                snd (snd (callTool env rq w)) =
                  sent1 @ [\<lparr>req_method = POST, req_url = apiUrl c1, req_cookie = cookie_header c1,
                     req_entries = [(''action'', ''edit''), (''title'', t), (''text'', x),
                                    (''summary'', with_default ''Updated via MCP'' (arg_summary a)),
                                    (''token'', tok), (''format'', ''json''),
                                    (''formatversion'', ''2'')]\<rparr>]))"
proof (intro conjI impI)
  show "snd (snd (createPage env (JStr t) (JStr x) (JStr s) w)) =
           sent1 @ [\<lparr>req_method = POST, req_url = apiUrl c1, req_cookie = cookie_header c1,
              req_entries = [(''action'', ''edit''), (''title'', t), (''text'', x), (''summary'', s),
                             (''token'', tok), (''createonly'', ''true''), (''format'', ''json''),
                             (''formatversion'', ''2'')]\<rparr>]"
    using assms by (rule createPage_log)
  show "snd (snd (updatePage env (JStr t) (JStr x) (JStr s) w)) =
           sent1 @ [\<lparr>req_method = POST, req_url = apiUrl c1, req_cookie = cookie_header c1,
              req_entries = [(''action'', ''edit''), (''title'', t), (''text'', x), (''summary'', s),
                             (''token'', tok), (''format'', ''json''), (''formatversion'', ''2'')]\<rparr>]"
    using assms by (rule updatePage_log)
next
  assume "\<not> truthy (editToken (fst w))"
  then show "sent1 = snd w @ [\<lparr>req_method = GET, req_url = apiUrl (fst w), req_cookie = cookie_header (fst w),
                req_entries = [(''action'', ''query''), (''meta'', ''tokens''), (''format'', ''json''),
                               (''formatversion'', ''2'')]\<rparr>]"
    using getEditToken_fetch [of "fst w" env "snd w" "JStr tok" "(c1, sent1)"] assms by simp
next
  assume h: "(\<not> truthy_opt (username (fst w)) \<or> \<not> truthy_opt (password (fst w))) \<and>
           call_arguments rq = Some a \<and> arg_title a = Some t \<and> arg_content a = Some x"
    and n: "call_name rq = ''create_page''"
  from h have "try_body env rq w = dispatch env (call_name rq) a w"
    by (simp add: try_body_anonymous)
  with n h show "snd (snd (callTool env rq w)) =
                  sent1 @ [\<lparr>req_method = POST, req_url = apiUrl c1, req_cookie = cookie_header c1,
                     req_entries = [(''action'', ''edit''), (''title'', t), (''text'', x),
                                    (''summary'', with_default ''Created via MCP'' (arg_summary a)),
                                    (''token'', tok), (''createonly'', ''true''), (''format'', ''json''),
                                    (''formatversion'', ''2'')]\<rparr>]"
    by (simp add: snd_callTool dispatch_def create_page_case_log createPage_log [OF assms])
next
  assume h: "(\<not> truthy_opt (username (fst w)) \<or> \<not> truthy_opt (password (fst w))) \<and>
           call_arguments rq = Some a \<and> arg_title a = Some t \<and> arg_content a = Some x"
    and n: "call_name rq = ''update_page''"
  from h have "try_body env rq w = dispatch env (call_name rq) a w"
    by (simp add: try_body_anonymous)
  with n h show "snd (snd (callTool env rq w)) =
                  sent1 @ [\<lparr>req_method = POST, req_url = apiUrl c1, req_cookie = cookie_header c1,
                     req_entries = [(''action'', ''edit''), (''title'', t), (''text'', x),
                                    (''summary'', with_default ''Updated via MCP'' (arg_summary a)),
                                    (''token'', tok), (''format'', ''json''),
                                    (''formatversion'', ''2'')]\<rparr>]"
    by (simp add: snd_callTool dispatch_def update_page_case_log updatePage_log [OF assms])
qed

text \<open>
  An anonymous session creating and updating a page: the token request, then the edit.
\<close>

theorem edit_requests_witness:
  "snd (snd (callTool (scripted node_text [token_reply, edit_reply]) (edit_call ''create_page'') (anonymous, []))) =
     [\<lparr>req_method = GET, req_url = ''https://wiki.example/api.php'', req_cookie = None,
       req_entries = [(''action'', ''query''), (''meta'', ''tokens''), (''format'', ''json''),
                      (''formatversion'', ''2'')]\<rparr>,
      \<lparr>req_method = POST, req_url = ''https://wiki.example/api.php'', req_cookie = Some ''session=abc'',
       req_entries = [(''action'', ''edit''), (''title'', ''Dotta''), (''text'', ''A wizard.''),
                      (''summary'', ''Created via MCP''), (''token'', ''abc123''),
                      (''createonly'', ''true''), (''format'', ''json''), (''formatversion'', ''2'')]\<rparr>]
   \<and> snd (snd (callTool (scripted node_text [token_reply, edit_reply]) (edit_call ''update_page'') (anonymous, []))) =
     [\<lparr>req_method = GET, req_url = ''https://wiki.example/api.php'', req_cookie = None,
       req_entries = [(''action'', ''query''), (''meta'', ''tokens''), (''format'', ''json''),
                      (''formatversion'', ''2'')]\<rparr>,
      \<lparr>req_method = POST, req_url = ''https://wiki.example/api.php'', req_cookie = Some ''session=abc'',
       req_entries = [(''action'', ''edit''), (''title'', ''Dotta''), (''text'', ''A wizard.''),
                      (''summary'', ''Updated via MCP''), (''token'', ''abc123''),
                      (''format'', ''json''), (''formatversion'', ''2'')]\<rparr>]"
proof -
  have tok: "getEditToken (scripted node_text [token_reply, edit_reply]) (anonymous, []) =
      (Inr (JStr ''abc123''),
       (anonymous\<lparr>editToken := JStr ''abc123'', cookies := [''session=abc'']\<rparr>,
        [\<lparr>req_method = GET, req_url = ''https://wiki.example/api.php'', req_cookie = None,
          req_entries = [(''action'', ''query''), (''meta'', ''tokens''), (''format'', ''json''),
                         (''formatversion'', ''2'')]\<rparr>]))"
    by (simp add: example_defs call_defs token_reply_def getEditToken_def edit_token_params_def
        await_def expr_def)
  have args: "call_arguments (edit_call n) =
      Some (no_arguments\<lparr>arg_title := Some ''Dotta'', arg_content := Some ''A wizard.''\<rparr>)"
    "call_name (edit_call n) = n" for n
    by (simp_all add: edit_call_def)
  from edit_requests [OF tok, where rq = "edit_call ''create_page''" and t = "''Dotta''"
      and x = "''A wizard.''"
      and a = "no_arguments\<lparr>arg_title := Some ''Dotta'', arg_content := Some ''A wizard.''\<rparr>"]
  have one: "snd (snd (callTool (scripted node_text [token_reply, edit_reply]) (edit_call ''create_page'') (anonymous, []))) =
     [\<lparr>req_method = GET, req_url = ''https://wiki.example/api.php'', req_cookie = None,
       req_entries = [(''action'', ''query''), (''meta'', ''tokens''), (''format'', ''json''),
                      (''formatversion'', ''2'')]\<rparr>,
      \<lparr>req_method = POST, req_url = ''https://wiki.example/api.php'', req_cookie = Some ''session=abc'',
       req_entries = [(''action'', ''edit''), (''title'', ''Dotta''), (''text'', ''A wizard.''),
                      (''summary'', ''Created via MCP''), (''token'', ''abc123''),
                      (''createonly'', ''true''), (''format'', ''json''), (''formatversion'', ''2'')]\<rparr>]"
    by (simp add: args no_arguments_def anonymous_def new_client_def cookie_header_def with_default_def)
  from edit_requests [OF tok, where rq = "edit_call ''update_page''" and t = "''Dotta''"
      and x = "''A wizard.''"
      and a = "no_arguments\<lparr>arg_title := Some ''Dotta'', arg_content := Some ''A wizard.''\<rparr>"]
  have two: "snd (snd (callTool (scripted node_text [token_reply, edit_reply]) (edit_call ''update_page'') (anonymous, []))) =
     [\<lparr>req_method = GET, req_url = ''https://wiki.example/api.php'', req_cookie = None,
       req_entries = [(''action'', ''query''), (''meta'', ''tokens''), (''format'', ''json''),
                      (''formatversion'', ''2'')]\<rparr>,
      \<lparr>req_method = POST, req_url = ''https://wiki.example/api.php'', req_cookie = Some ''session=abc'',
       req_entries = [(''action'', ''edit''), (''title'', ''Dotta''), (''text'', ''A wizard.''),
                      (''summary'', ''Updated via MCP''), (''token'', ''abc123''),
                      (''format'', ''json''), (''formatversion'', ''2'')]\<rparr>]"
    by (simp add: args no_arguments_def anonymous_def new_client_def cookie_header_def with_default_def)
  from one two show ?thesis by simp
qed

section \<open>read_page\<close>

lemma read_page_run:
  assumes "call_name rq = ''read_page''" and "call_arguments rq = Some a"
    and "getPage env (of_opt (arg_title a)) w = (Inr result, w1)"
    and "get_path result [''query'', ''pages''] = Inr pages" and "get_first pages = Inr page"
    and "get_prop page ''missing'' = Inr missing"
  shows "callTool env rq w =
           (case (if truthy missing then missing_result page else page_content page) of
              Inl e \<Rightarrow> (error_result e, w1)
            | Inr r \<Rightarrow> (r, w1))"
proof -
  have "try_body env rq w = read_page_case env a w"
    using assms(1,2) by (simp add: try_body_def dispatch_def)
  also have "\<dots> = ((if truthy missing then missing_result page else page_content page), w1)"
    using assms(3-6) by (simp add: read_page_case_def await_def expr_def first_page_def)
  finally show ?thesis
    by (simp add: callTool_def split: sum.splits)
qed

text \<open>
  C7. When the page request has returned and the first page of the response can be read:
  if its \<^verbatim>\<open>missing\<close> flag is truthy, \<^verbatim>\<open>read_page\<close> returns, as an ordinary result, the
  JSON text of \<^verbatim>\<open>{title, exists: false, message: "Page does not exist"}\<close>; otherwise it
  returns the JSON text of \<^verbatim>\<open>{title, content, lastEdit: {timestamp, user, comment}}\<close>, the
  content being that of the main slot of the page's first revision.
\<close>

theorem read_page_reshape:
  assumes "call_name rq = ''read_page''" and "call_arguments rq = Some a"
    and "getPage env (of_opt (arg_title a)) w = (Inr result, w1)"
    and "get_path result [''query'', ''pages''] = Inr pages" and "get_first pages = Inr page"
    and "get_prop page ''missing'' = Inr missing" and "get_prop page ''title'' = Inr t"
  shows "(truthy missing \<longrightarrow>
            callTool env rq w =
              (\<lparr>res_text = JSON_stringify (JObj [(''title'', t), (''exists'', JBool False),
                                                 (''message'', JStr ''Page does not exist'')]),
                isError = False\<rparr>, w1))
       \<and> (\<not> truthy missing \<and> get_prop page ''revisions'' = Inr revs \<and> get_first revs = Inr revision \<and>
          get_path revision [''slots'', ''main'', ''content''] = Inr content \<and>
          get_prop revision ''timestamp'' = Inr ts \<and> get_prop revision ''user'' = Inr u \<and>
          get_prop revision ''comment'' = Inr cm \<longrightarrow>
            callTool env rq w =
              (\<lparr>res_text = JSON_stringify (JObj [(''title'', t), (''content'', content),
                    (''lastEdit'', JObj [(''timestamp'', ts), (''user'', u), (''comment'', cm)])]),
                isError = False\<rparr>, w1))"
proof (intro conjI impI)
  assume "truthy missing"
  then show "callTool env rq w =
              (\<lparr>res_text = JSON_stringify (JObj [(''title'', t), (''exists'', JBool False),
                                                 (''message'', JStr ''Page does not exist'')]),
                isError = False\<rparr>, w1)"
    using read_page_run [OF assms(1-6)] assms(7)
    by (simp add: missing_result_def json_result_def)
next
  assume "\<not> truthy missing \<and> get_prop page ''revisions'' = Inr revs \<and> get_first revs = Inr revision \<and>
          get_path revision [''slots'', ''main'', ''content''] = Inr content \<and>
          get_prop revision ''timestamp'' = Inr ts \<and> get_prop revision ''user'' = Inr u \<and>
          get_prop revision ''comment'' = Inr cm"
  then show "callTool env rq w =
              (\<lparr>res_text = JSON_stringify (JObj [(''title'', t), (''content'', content),
                    (''lastEdit'', JObj [(''timestamp'', ts), (''user'', u), (''comment'', cm)])]),
                isError = False\<rparr>, w1)"
    using read_page_run [OF assms(1-6)] assms(7)
    by (simp add: page_content_def pick_obj_def json_result_def)
qed

text \<open>A page that exists and a page that is missing.\<close>

theorem read_page_reshape_witness:
  "callTool (always node_text (reply None (pages_body dotta_page))) (read_call ''Dotta'') (anonymous, []) =
     (\<lparr>res_text = JSON_stringify (JObj [(''title'', JStr ''Dotta''), (''content'', JStr ''A wizard.''),
           (''lastEdit'', JObj [(''timestamp'', JStr ''2024-01-01T00:00:00Z''), (''user'', JStr ''Merlin''),
                                (''comment'', JStr ''typo'')])]),
       isError = False\<rparr>,
      (anonymous, [read_request ''Dotta'']))
   \<and> callTool (always node_text (reply None (pages_body nobody_page))) (read_call ''Nobody'') (anonymous, []) =
     (\<lparr>res_text = JSON_stringify (JObj [(''title'', JStr ''Nobody''), (''exists'', JBool False),
                                        (''message'', JStr ''Page does not exist'')]),
       isError = False\<rparr>,
      (anonymous, [read_request ''Nobody'']))"
proof -
  have get: "getPage (always node_text (reply None (pages_body page)))
               (of_opt (arg_title (no_arguments\<lparr>arg_title := Some t\<rparr>))) (anonymous, []) =
               (Inr (pages_body page), (anonymous, [read_request t]))" for page t
    by (simp add: getPage_def example_defs call_defs pages_body_def read_request_def)
  have path: "get_path (pages_body page) [''query'', ''pages''] = Inr (JArr [page])" for page
    by (simp add: pages_body_def)
  have first: "get_first (JArr [page]) = Inr page" for page
    by simp
  have call: "call_name (read_call t) = ''read_page''"
    "call_arguments (read_call t) = Some (no_arguments\<lparr>arg_title := Some t\<rparr>)" for t
    by (simp_all add: read_call_def)
  have dotta: "get_prop dotta_page ''missing'' = Inr JUndefined"
    "get_prop dotta_page ''title'' = Inr (JStr ''Dotta'')"
    "get_prop dotta_page ''revisions'' = Inr (JArr [dotta_revision])"
    "get_path dotta_revision [''slots'', ''main'', ''content''] = Inr (JStr ''A wizard.'')"
    "get_prop dotta_revision ''timestamp'' = Inr (JStr ''2024-01-01T00:00:00Z'')"
    "get_prop dotta_revision ''user'' = Inr (JStr ''Merlin'')"
    "get_prop dotta_revision ''comment'' = Inr (JStr ''typo'')"
    by (simp_all add: dotta_page_def dotta_revision_def)
  have nobody: "get_prop nobody_page ''missing'' = Inr (JBool True)"
    "get_prop nobody_page ''title'' = Inr (JStr ''Nobody'')"
    by (simp_all add: nobody_page_def)
  from read_page_reshape [OF call get path first dotta(1,2), where revs = "JArr [dotta_revision]"
      and revision = dotta_revision and content = "JStr ''A wizard.''"
      and ts = "JStr ''2024-01-01T00:00:00Z''" and u = "JStr ''Merlin''" and cm = "JStr ''typo''"]
  have there: "callTool (always node_text (reply None (pages_body dotta_page))) (read_call ''Dotta'') (anonymous, []) =
     (\<lparr>res_text = JSON_stringify (JObj [(''title'', JStr ''Dotta''), (''content'', JStr ''A wizard.''),
           (''lastEdit'', JObj [(''timestamp'', JStr ''2024-01-01T00:00:00Z''), (''user'', JStr ''Merlin''),
                                (''comment'', JStr ''typo'')])]),
       isError = False\<rparr>,
      (anonymous, [read_request ''Dotta'']))"
    using dotta(3-7) by simp
  from read_page_reshape [OF call get path first nobody]
  have gone: "callTool (always node_text (reply None (pages_body nobody_page))) (read_call ''Nobody'') (anonymous, []) =
     (\<lparr>res_text = JSON_stringify (JObj [(''title'', JStr ''Nobody''), (''exists'', JBool False),
                                        (''message'', JStr ''Page does not exist'')]),
       isError = False\<rparr>,
      (anonymous, [read_request ''Nobody'']))"
    by simp
  from there gone show ?thesis by simp
qed

section \<open>The cookie jar\<close>

lemma jar_growsI: "(\<And>w. \<exists>added. cookies (fst (snd (m w))) = cookies (fst w) @ added) \<Longrightarrow> jar_grows m"
  unfolding jar_grows_def by blast

lemma jar_growsD: "jar_grows m \<Longrightarrow> \<exists>added. cookies (fst (snd (m w))) = cookies (fst w) @ added"
  unfolding jar_grows_def by blast

lemma jar_grows_expr: "jar_grows (expr r)"
  by (simp add: jar_grows_def expr_def)

lemma jar_grows_await:
  assumes "jar_grows m" and "\<And>x. jar_grows (k x)"
  shows "jar_grows (await m k)"
proof (rule jar_growsI)
  fix w
  obtain r w1 where run: "m w = (r, w1)" by (cases "m w")
  from jar_growsD [OF assms(1), of w] run
  obtain xs where one: "cookies (fst w1) = cookies (fst w) @ xs" by auto
  show "\<exists>added. cookies (fst (snd (await m k w))) = cookies (fst w) @ added"
  proof (cases r)
    case (Inl e)
    with run one show ?thesis by (simp add: await_def)
  next
    case (Inr x)
    from jar_growsD [OF assms(2), of x w1]
    obtain ys where "cookies (fst (snd (k x w1))) = cookies (fst w1) @ ys" by auto
    with Inr run one show ?thesis by (simp add: await_def)
  qed
qed

lemma jar_grows_makeApiCall: "jar_grows (\<lambda>w. makeApiCall env (params w) m w)"
  by (rule jar_growsI)
     (auto simp: makeApiCall_def cookies_save_cookies split: sum.splits prod.splits)

lemma jar_grows_makeApiCall': "jar_grows (makeApiCall env params m)"
  using jar_grows_makeApiCall [of env "\<lambda>w. params" m] by simp

lemma jar_grows_login: "jar_grows (login env)"
proof -
  have "jar_grows (await (makeApiCall env login_token_params GET) (\<lambda>tokenResponse.
        await (expr (get_path tokenResponse [''query'', ''tokens'', ''logintoken''])) (\<lambda>loginToken.
        await (\<lambda>w1. makeApiCall env (login_params (fst w1) loginToken) POST w1) (\<lambda>loginResponse.
        await (expr (get_path loginResponse [''login'', ''result''])) (\<lambda>result w2.
          if result = JStr ''Success''
          then (Inr True, ((fst w2)\<lparr>loggedIn := True\<rparr>, snd w2))
          else (Inl (login_failed (number_text env) loginResponse), w2))))))"
    by (intro jar_grows_await jar_grows_makeApiCall jar_grows_makeApiCall' jar_grows_expr)
       (simp add: jar_grows_def)
  then show ?thesis
    by (simp add: jar_grows_def login_def)
qed

lemma jar_grows_getEditToken: "jar_grows (getEditToken env)"
proof -
  have "jar_grows (await (makeApiCall env edit_token_params GET) (\<lambda>tokenResponse.
        await (expr (get_path tokenResponse [''query'', ''tokens'', ''csrftoken''])) (\<lambda>token w1.
          (Inr token, ((fst w1)\<lparr>editToken := token\<rparr>, snd w1)))))"
    by (intro jar_grows_await jar_grows_makeApiCall' jar_grows_expr) (simp add: jar_grows_def)
  then show ?thesis
    by (simp add: jar_grows_def getEditToken_def)
qed

lemma jar_grows_if: "jar_grows m \<Longrightarrow> jar_grows n \<Longrightarrow> jar_grows (if b then m else n)"
  by simp

lemma jar_grows_dispatch: "jar_grows (dispatch env n a)"
  unfolding dispatch_def search_pages_case_def read_page_case_def create_page_case_def
    update_page_case_def get_page_history_case_def get_categories_case_def
    searchPages_def getPage_def createPage_def updatePage_def getPageHistory_def getCategories_def
  by (intro jar_grows_if jar_grows_await jar_grows_makeApiCall' jar_grows_expr jar_grows_getEditToken)

lemma jar_grows_try_body: "jar_grows (try_body env rq)"
  unfolding try_body_def
  by (cases "call_arguments rq")
     (auto intro!: jar_grows_if jar_grows_await jar_grows_expr jar_grows_login jar_grows_dispatch)

lemma jar_grows_callTool: "jar_grows (callTool env rq)"
proof (rule jar_growsI)
  fix w
  have "snd (callTool env rq w) = snd (try_body env rq w)" by (rule snd_callTool)
  with jar_growsD [OF jar_grows_try_body, of env rq w]
  show "\<exists>added. cookies (fst (snd (callTool env rq w))) = cookies (fst w) @ added" by simp
qed

text \<open>
  C8. The cookie jar only grows, in the order the cookies arrive. A request carries no
  \<^verbatim>\<open>Cookie\<close> header when the jar is empty and otherwise the stored values joined by
  \<^verbatim>\<open>"; "\<close> in that order; a call, and a whole tool call, leaves the old jar as a prefix of
  the new one; a non-empty \<^verbatim>\<open>Set-Cookie\<close> value is appended whether or not it is in the
  jar already; and after two calls whose responses set the values \<open>a\<close> and \<open>b\<close>, the
  request of a third call carries the old jar followed by \<open>a\<close> and \<open>b\<close>.
\<close>

theorem cookie_jar_accumulates:
  "(build_request (number_text env) c params m = Inr req \<longrightarrow>
      req_cookie req = (if cookies c = [] then None else Some (join_with ''; '' (cookies c)))
      \<and> snd (snd (makeApiCall env params m (c, sent))) = sent @ [req])
   \<and> (\<exists>added. cookies (fst (snd (makeApiCall env params m (c, sent)))) = cookies c @ added)
   \<and> (\<exists>added. cookies (fst (snd (callTool env rq (c, sent)))) = cookies c @ added)
   \<and> (build_request (number_text env) c params m = Inr req \<and> remote env (sent @ [req]) = Inr resp \<and>
      set_cookie resp = Some ck \<and> ck \<noteq> [] \<longrightarrow>
        cookies (fst (snd (makeApiCall env params m (c, sent)))) = cookies c @ [ck])
   \<and> (build_request (number_text env) c p1 m1 = Inr q1 \<and> remote env (sent @ [q1]) = Inr r1 \<and>
      set_cookie r1 = Some a \<and> a \<noteq> [] \<and>
      makeApiCall env p1 m1 (c, sent) = (x1, (c1, sent1)) \<and>
      build_request (number_text env) c1 p2 m2 = Inr q2 \<and> remote env (sent1 @ [q2]) = Inr r2 \<and>
      set_cookie r2 = Some b \<and> b \<noteq> [] \<and>
      makeApiCall env p2 m2 (c1, sent1) = (x2, (c2, sent2)) \<and>
      build_request (number_text env) c2 p3 m3 = Inr q3 \<longrightarrow>
        req_cookie q3 = Some (join_with ''; '' (cookies c @ [a, b]))
        \<and> snd (snd (makeApiCall env p3 m3 (c2, sent2))) = sent2 @ [q3]
        \<and> (cookies c = [] \<longrightarrow> req_cookie q3 = Some (a @ ''; '' @ b)))"
proof (intro conjI impI)
  assume h: "build_request (number_text env) c params m = Inr req"
  then show "req_cookie req = (if cookies c = [] then None else Some (join_with ''; '' (cookies c)))"
    using build_request_fields [OF h] by (simp add: cookie_header_join)
  from h show "snd (snd (makeApiCall env params m (c, sent))) = sent @ [req]"
    by (rule makeApiCall_log)
next
  show "\<exists>added. cookies (fst (snd (makeApiCall env params m (c, sent)))) = cookies c @ added"
    using jar_growsD [OF jar_grows_makeApiCall', of env params m "(c, sent)"] by simp
  show "\<exists>added. cookies (fst (snd (callTool env rq (c, sent)))) = cookies c @ added"
    using jar_growsD [OF jar_grows_callTool, of env rq "(c, sent)"] by simp
next
  assume "build_request (number_text env) c params m = Inr req \<and> remote env (sent @ [req]) = Inr resp \<and>
      set_cookie resp = Some ck \<and> ck \<noteq> []"
  then show "cookies (fst (snd (makeApiCall env params m (c, sent)))) = cookies c @ [ck]"
    by (simp add: makeApiCall_jar cookies_save_cookies)
next
  assume h: "build_request (number_text env) c p1 m1 = Inr q1 \<and> remote env (sent @ [q1]) = Inr r1 \<and>
      set_cookie r1 = Some a \<and> a \<noteq> [] \<and>
      makeApiCall env p1 m1 (c, sent) = (x1, (c1, sent1)) \<and>
      build_request (number_text env) c1 p2 m2 = Inr q2 \<and> remote env (sent1 @ [q2]) = Inr r2 \<and>
      set_cookie r2 = Some b \<and> b \<noteq> [] \<and>
      makeApiCall env p2 m2 (c1, sent1) = (x2, (c2, sent2)) \<and>
      build_request (number_text env) c2 p3 m3 = Inr q3"
  have one: "cookies c1 = cookies c @ [a]"
    using h makeApiCall_jar [of env c p1 m1 q1 sent r1] by (simp add: cookies_save_cookies)
  have two: "cookies c2 = cookies c1 @ [b]"
    using h makeApiCall_jar [of env c1 p2 m2 q2 sent1 r2] by (simp add: cookies_save_cookies)
  from one two have jar: "cookies c2 = cookies c @ [a, b]" by simp
  from h have q3: "build_request (number_text env) c2 p3 m3 = Inr q3" by simp
  show "req_cookie q3 = Some (join_with ''; '' (cookies c @ [a, b]))"
    using build_request_fields [OF q3] jar by (simp add: cookie_header_join)
  show "snd (snd (makeApiCall env p3 m3 (c2, sent2))) = sent2 @ [q3]"
    using q3 by (rule makeApiCall_log)
  {
    assume "cookies c = []"
    then show "req_cookie q3 = Some (a @ ''; '' @ b)"
      using build_request_fields [OF q3] jar by (simp add: cookie_header_join)
  }
qed

text \<open>
  Three calls in a row; the replies set \<^verbatim>\<open>a=1\<close>, \<^verbatim>\<open>b=2\<close> and \<^verbatim>\<open>a=1\<close> again. The third
  request carries \<^verbatim>\<open>a=1; b=2\<close>, and the jar ends with the repeated value kept.
\<close>

theorem cookie_jar_accumulates_witness:
  "makeApiCall three_cookies edit_token_params GET
     (snd (makeApiCall three_cookies edit_token_params GET
        (snd (makeApiCall three_cookies edit_token_params GET (anonymous, []))))) =
   (Inr (JObj [(''batchcomplete'', JBool True)]),
    (anonymous\<lparr>cookies := [''a=1'', ''b=2'', ''a=1'']\<rparr>,
     [query_request None, query_request (Some ''a=1''), query_request (Some ''a=1; b=2'')]))"
proof -
  have build: "build_request (number_text three_cookies) (anonymous\<lparr>cookies := jar\<rparr>) edit_token_params GET =
      Inr (query_request (if jar = [] then None else Some (join_with ''; '' jar)))" for jar
    by (simp add: build_request_def edit_token_params_def query_request_def anonymous_def
        new_client_def cookie_header_def)
  have build0: "build_request (number_text three_cookies) anonymous edit_token_params GET = Inr (query_request None)"
    using build [of "[]"] by (simp add: anonymous_def new_client_def)
  have srv: "remote three_cookies [q1] = Inr (cookie_reply ''a=1'')"
    "remote three_cookies [q1, q2] = Inr (cookie_reply ''b=2'')"
    "remote three_cookies [q1, q2, q3] = Inr (cookie_reply ''a=1'')" for q1 q2 q3
    by (simp_all add: three_cookies_def scripted_def)
  have ck: "set_cookie (cookie_reply k) = Some k"
    "json_body (cookie_reply k) = Inr (JObj [(''batchcomplete'', JBool True)])" for k
    by (simp_all add: cookie_reply_def reply_def)
  have body: "check_body (number_text three_cookies) (JObj [(''batchcomplete'', JBool True)]) = Inr (JObj [(''batchcomplete'', JBool True)])"
    by (simp add: check_body_def)
  have one: "makeApiCall three_cookies edit_token_params GET (anonymous, []) =
      (Inr (JObj [(''batchcomplete'', JBool True)]),
       (anonymous\<lparr>cookies := [''a=1'']\<rparr>, [query_request None]))"
    using makeApiCall_reply [OF build0, of "[]"] srv(1) ck body
    by (simp add: save_cookies_def anonymous_def new_client_def)
  have two: "makeApiCall three_cookies edit_token_params GET
        (anonymous\<lparr>cookies := [''a=1'']\<rparr>, [query_request None]) =
      (Inr (JObj [(''batchcomplete'', JBool True)]),
       (anonymous\<lparr>cookies := [''a=1'', ''b=2'']\<rparr>, [query_request None, query_request (Some ''a=1'')]))"
    using makeApiCall_reply [OF build [of "[''a=1'']"], of "[query_request None]"] srv(2) ck body
    by (simp add: save_cookies_def)
  from cookie_jar_accumulates [where c = anonymous and sent = "[]" and env = three_cookies
      and ?p1.0 = edit_token_params and ?m1.0 = GET and ?q1.0 = "query_request None"
      and ?r1.0 = "cookie_reply ''a=1''" and a = "''a=1''"
      and ?x1.0 = "Inr (JObj [(''batchcomplete'', JBool True)])"
      and ?c1.0 = "anonymous\<lparr>cookies := [''a=1'']\<rparr>" and ?sent1.0 = "[query_request None]"
      and ?p2.0 = edit_token_params and ?m2.0 = GET and ?q2.0 = "query_request (Some ''a=1'')"
      and ?r2.0 = "cookie_reply ''b=2''" and b = "''b=2''"
      and ?x2.0 = "Inr (JObj [(''batchcomplete'', JBool True)])"
      and ?c2.0 = "anonymous\<lparr>cookies := [''a=1'', ''b=2'']\<rparr>"
      and ?sent2.0 = "[query_request None, query_request (Some ''a=1'')]"
      and ?p3.0 = edit_token_params and ?m3.0 = GET and ?q3.0 = "query_request (Some ''a=1; b=2'')"]
  have third: "snd (snd (makeApiCall three_cookies edit_token_params GET
        (anonymous\<lparr>cookies := [''a=1'', ''b=2'']\<rparr>, [query_request None, query_request (Some ''a=1'')]))) =
      [query_request None, query_request (Some ''a=1''), query_request (Some ''a=1; b=2'')]"
    using one two build0 build [of "[''a=1'']"] build [of "[''a=1'', ''b=2'']"] srv ck
    by simp
  have three: "makeApiCall three_cookies edit_token_params GET
        (anonymous\<lparr>cookies := [''a=1'', ''b=2'']\<rparr>, [query_request None, query_request (Some ''a=1'')]) =
      (Inr (JObj [(''batchcomplete'', JBool True)]),
       (anonymous\<lparr>cookies := [''a=1'', ''b=2'', ''a=1'']\<rparr>,
        [query_request None, query_request (Some ''a=1''), query_request (Some ''a=1; b=2'')]))"
    using makeApiCall_reply [OF build [of "[''a=1'', ''b=2'']"], of
        "[query_request None, query_request (Some ''a=1'')]"] srv(3) ck body third
    by (simp add: save_cookies_def)
  from one two three show ?thesis by simp
qed

section \<open>The login gate of the handler\<close>

lemma try_body_login_Inl:
  assumes "call_name rq \<noteq> ''search_pages''" and "call_name rq \<noteq> ''read_page''"
    and "call_arguments rq = Some a" and "login env w = (Inl e, w1)"
  shows "try_body env rq w = (Inl e, w1)"
  using assms by (simp add: try_body_def await_def)

lemma try_body_login_Inr:
  assumes "call_name rq \<noteq> ''search_pages''" and "call_name rq \<noteq> ''read_page''"
    and "call_arguments rq = Some a" and "login env w = (Inr ok, w1)"
  shows "try_body env rq w = dispatch env (call_name rq) a w1"
  using assms by (simp add: try_body_def await_def)

lemma dispatch_unknown:
  assumes "n \<noteq> ''search_pages''" and "n \<noteq> ''read_page''" and "n \<noteq> ''create_page''"
    and "n \<noteq> ''update_page''" and "n \<noteq> ''get_page_history''" and "n \<noteq> ''get_categories''"
  shows "dispatch env n a w = (Inl (Error (''Unknown tool: '' @ n)), w)"
  using assms by (simp add: dispatch_def expr_def)

text \<open>
  C9. For every tool name other than \<^verbatim>\<open>search_pages\<close> and \<^verbatim>\<open>read_page\<close>, names of no tool
  included, the handler runs login before it looks at the name: a failing login is the
  result of the call, and otherwise the \<^verbatim>\<open>switch\<close> runs in the state login has left. So
  a call of an unknown tool by a session with credentials that is not yet logged in sends
  the two requests of the login handshake, becomes logged in, and only then fails with
  \<^verbatim>\<open>Unknown tool: <name>\<close>.
\<close>

theorem login_precedes_dispatch:
  assumes "call_name rq \<noteq> ''search_pages''" and "call_name rq \<noteq> ''read_page''"
    and "call_arguments rq = Some a"
  shows "(login env w = (Inl e, w1) \<longrightarrow> callTool env rq w = (error_result e, w1))
       \<and> (login env w = (Inr ok, w1) \<longrightarrow> try_body env rq w = dispatch env (call_name rq) a w1)
       \<and> (login env w = (Inr ok, w1) \<and> call_name rq \<noteq> ''create_page'' \<and>
          call_name rq \<noteq> ''update_page'' \<and> call_name rq \<noteq> ''get_page_history'' \<and>
          call_name rq \<noteq> ''get_categories'' \<longrightarrow>
            callTool env rq w =
              (\<lparr>res_text = Plain (''Error: Unknown tool: '' @ call_name rq), isError = True\<rparr>, w1))
       \<and> (w = (c, sent) \<and> username c = Some u \<and> u \<noteq> [] \<and> password c = Some p \<and> p \<noteq> [] \<and>
          \<not> loggedIn c \<and>
          makeApiCall env login_token_params GET (c, sent) = (Inr tokenResponse, (c1, sent1)) \<and>
          get_path tokenResponse [''query'', ''tokens'', ''logintoken''] = Inr (JStr lt) \<and>
          makeApiCall env (login_params c1 (JStr lt)) POST (c1, sent1) = (Inr loginResponse, (c2, sent2)) \<and>
          get_path loginResponse [''login'', ''result''] = Inr (JStr ''Success'') \<and>
          call_name rq \<noteq> ''create_page'' \<and> call_name rq \<noteq> ''update_page'' \<and>
          call_name rq \<noteq> ''get_page_history'' \<and> call_name rq \<noteq> ''get_categories'' \<longrightarrow>
            callTool env rq w =
              (\<lparr>res_text = Plain (''Error: Unknown tool: '' @ call_name rq), isError = True\<rparr>,
               (c2\<lparr>loggedIn := True\<rparr>,
                sent @
                  [\<lparr>req_method = GET, req_url = apiUrl c, req_cookie = cookie_header c,
                    req_entries = [(''action'', ''query''), (''meta'', ''tokens''), (''type'', ''login''),
                                   (''format'', ''json''), (''formatversion'', ''2'')]\<rparr>,
                   \<lparr>req_method = POST, req_url = apiUrl c, req_cookie = cookie_header c1,
                    req_entries = [(''action'', ''login''), (''lgname'', u), (''lgpassword'', p),
                                   (''lgtoken'', lt), (''format'', ''json''),
                                   (''formatversion'', ''2'')]\<rparr>])))"
proof (intro conjI impI)
  assume "login env w = (Inl e, w1)"
  then show "callTool env rq w = (error_result e, w1)"
    using assms by (simp add: try_body_login_Inl callTool_Inl)
next
  assume "login env w = (Inr ok, w1)"
  then show "try_body env rq w = dispatch env (call_name rq) a w1"
    using assms by (rule try_body_login_Inr [rotated 3])
next
  assume h: "login env w = (Inr ok, w1) \<and> call_name rq \<noteq> ''create_page'' \<and>
          call_name rq \<noteq> ''update_page'' \<and> call_name rq \<noteq> ''get_page_history'' \<and>
          call_name rq \<noteq> ''get_categories''"
  then have "try_body env rq w = (Inl (Error (''Unknown tool: '' @ call_name rq)), w1)"
    using assms try_body_login_Inr [of rq a env w ok w1] by (simp add: dispatch_unknown)
  then show "callTool env rq w =
              (\<lparr>res_text = Plain (''Error: Unknown tool: '' @ call_name rq), isError = True\<rparr>, w1)"
    by (simp add: callTool_Inl error_result_def)
next
  assume h: "w = (c, sent) \<and> username c = Some u \<and> u \<noteq> [] \<and> password c = Some p \<and> p \<noteq> [] \<and>
          \<not> loggedIn c \<and>
          makeApiCall env login_token_params GET (c, sent) = (Inr tokenResponse, (c1, sent1)) \<and>
          get_path tokenResponse [''query'', ''tokens'', ''logintoken''] = Inr (JStr lt) \<and>
          makeApiCall env (login_params c1 (JStr lt)) POST (c1, sent1) = (Inr loginResponse, (c2, sent2)) \<and>
          get_path loginResponse [''login'', ''result''] = Inr (JStr ''Success'') \<and>
          call_name rq \<noteq> ''create_page'' \<and> call_name rq \<noteq> ''update_page'' \<and>
          call_name rq \<noteq> ''get_page_history'' \<and> call_name rq \<noteq> ''get_categories''"
  then have creds: "truthy_opt (username c)" "truthy_opt (password c)" by simp_all
  from h have reqs: "sent2 = sent @
           [\<lparr>req_method = GET, req_url = apiUrl c, req_cookie = cookie_header c,
             req_entries = [(''action'', ''query''), (''meta'', ''tokens''), (''type'', ''login''),
                            (''format'', ''json''), (''formatversion'', ''2'')]\<rparr>,
            \<lparr>req_method = POST, req_url = apiUrl c, req_cookie = cookie_header c1,
             req_entries = [(''action'', ''login''), (''lgname'', u), (''lgpassword'', p), (''lgtoken'', lt),
                            (''format'', ''json''), (''formatversion'', ''2'')]\<rparr>]"
    using login_handshake_requests [of c u p env sent tokenResponse c1 sent1 lt loginResponse c2 sent2]
    by simp
  from h creds have run: "login env w = (Inr True, (c2\<lparr>loggedIn := True\<rparr>, sent2))"
    using login_handshake [of c env sent tokenResponse c1 sent1 "JStr lt" loginResponse c2 sent2
        "JStr ''Success''"]
    by simp
  from h have "try_body env rq w = (Inl (Error (''Unknown tool: '' @ call_name rq)), (c2\<lparr>loggedIn := True\<rparr>, sent2))"
    using assms try_body_login_Inr [OF assms run] by (simp add: dispatch_unknown)
  then show "callTool env rq w =
              (\<lparr>res_text = Plain (''Error: Unknown tool: '' @ call_name rq), isError = True\<rparr>,
               (c2\<lparr>loggedIn := True\<rparr>,
                sent @
                  [\<lparr>req_method = GET, req_url = apiUrl c, req_cookie = cookie_header c,
                    req_entries = [(''action'', ''query''), (''meta'', ''tokens''), (''type'', ''login''),
                                   (''format'', ''json''), (''formatversion'', ''2'')]\<rparr>,
                   \<lparr>req_method = POST, req_url = apiUrl c, req_cookie = cookie_header c1,
                    req_entries = [(''action'', ''login''), (''lgname'', u), (''lgpassword'', p),
                                   (''lgtoken'', lt), (''format'', ''json''),
                                   (''formatversion'', ''2'')]\<rparr>]))"
    using reqs by (simp add: callTool_Inl error_result_def)
qed

text \<open>A tool that does not exist, called by a session with credentials.\<close>

theorem login_precedes_dispatch_witness:
  "callTool (scripted node_text [login_token_reply, login_success_reply]) unknown_call (editor, []) =
     (\<lparr>res_text = Plain ''Error: Unknown tool: delete_page'', isError = True\<rparr>,
      (editor\<lparr>loggedIn := True, cookies := [''session=abc'', ''user=Dotta'']\<rparr>,
       [login_token_request, login_request]))"
proof -
  have name: "call_name unknown_call \<noteq> ''search_pages''" "call_name unknown_call \<noteq> ''read_page''"
    and args: "call_arguments unknown_call = Some no_arguments"
    by (simp_all add: unknown_call_def)
  have one: "makeApiCall (scripted node_text [login_token_reply, login_success_reply]) login_token_params GET (editor, []) =
      (Inr (JObj [(''query'', JObj [(''tokens'', JObj [(''logintoken'', JStr ''lt42'')])])]),
       (editor\<lparr>cookies := [''session=abc'']\<rparr>, [login_token_request]))"
    by (simp add: example_defs call_defs login_token_reply_def login_token_params_def
        login_token_request_def)
  have two: "makeApiCall (scripted node_text [login_token_reply, login_success_reply])
        (login_params (editor\<lparr>cookies := [''session=abc'']\<rparr>) (JStr ''lt42'')) POST
        (editor\<lparr>cookies := [''session=abc'']\<rparr>, [login_token_request]) =
      (Inr (JObj [(''login'', JObj [(''result'', JStr ''Success''), (''lgusername'', JStr ''Dotta'')])]),
       (editor\<lparr>cookies := [''session=abc'', ''user=Dotta'']\<rparr>, [login_token_request, login_request]))"
    by (simp add: example_defs call_defs login_success_reply_def login_params_def
        login_token_request_def login_request_def)
  from login_precedes_dispatch [OF name args, where w = "(editor, [])" and c = editor and sent = "[]"
      and env = "scripted node_text [login_token_reply, login_success_reply]"
      and u = "''Dotta''" and p = "''hunter2''" and lt = "''lt42''"
      and tokenResponse = "JObj [(''query'', JObj [(''tokens'', JObj [(''logintoken'', JStr ''lt42'')])])]"
      and ?c1.0 = "editor\<lparr>cookies := [''session=abc'']\<rparr>" and ?sent1.0 = "[login_token_request]"
      and loginResponse = "JObj [(''login'', JObj [(''result'', JStr ''Success''), (''lgusername'', JStr ''Dotta'')])]"
      and ?c2.0 = "editor\<lparr>cookies := [''session=abc'', ''user=Dotta'']\<rparr>"
      and ?sent2.0 = "[login_token_request, login_request]"]
  show ?thesis
    using one two
    by (simp add: unknown_call_def editor_def new_client_def cookie_header_def
        login_token_request_def login_request_def)
qed

section \<open>The catch of the handler\<close>

lemma to_string_primitive: "primitive v \<Longrightarrow> \<exists>s. to_string num v = Inr s"
  by (cases v) simp_all

lemma encode_primitive: "\<forall>kv \<in> set ps. primitive (snd kv) \<Longrightarrow> \<exists>es. encode num ps = Inr es"
proof (induction ps)
  case Nil
  show ?case by simp
next
  case (Cons kv ps)
  obtain k v where kv: "kv = (k, v)" by (cases kv)
  from Cons.prems kv obtain s where s: "to_string num v = Inr s"
    using to_string_primitive [of v] by auto
  from Cons obtain es where "encode num ps = Inr es" by auto
  with kv s show ?case by simp
qed

lemma set_param_primitive:
  "\<forall>kv \<in> set ps. primitive (snd kv) \<Longrightarrow> primitive v \<Longrightarrow>
     \<forall>kv \<in> set (set_param ps k v). primitive (snd kv)"
proof (induction ps)
  case Nil
  then show ?case by simp
next
  case (Cons p ps)
  obtain k' v' where p: "p = (k', v')" by (cases p)
  from Cons.prems have rest: "\<forall>kv \<in> set ps. primitive (snd kv)" and here: "primitive v'"
    by (simp_all add: p)
  from Cons.IH [OF rest Cons.prems(2)] rest here Cons.prems(2) show ?case
    by (simp add: p)
qed

lemma build_request_primitive:
  assumes "\<forall>kv \<in> set ps. primitive (snd kv)"
  shows "\<exists>req. build_request num c ps m = Inr req"
proof -
  have "\<forall>kv \<in> set (set_param (set_param ps ''format'' (JStr ''json'')) ''formatversion'' (JStr ''2'')).
          primitive (snd kv)"
    using assms by (intro set_param_primitive) simp_all
  from encode_primitive [OF this, of num] show ?thesis
    by (auto simp: build_request_def)
qed

lemma primitive_of_opt: "primitive (of_opt x)"
  by (cases x) simp_all

lemma check_body_error_body:
  "check_body num (error_body code info) = Inl (Error (''MediaWiki API error: '' @ code @ '' - '' @ info))"
  by (simp add: check_body_def error_body_def api_error_def)

lemma makeApiCall_error_reply:
  assumes "\<forall>kv \<in> set ps. primitive (snd kv)"
  shows "fst (makeApiCall (always num (reply ck (error_body code info))) ps m w) =
           Inl (Error (''MediaWiki API error: '' @ code @ '' - '' @ info))"
proof -
  obtain c sent where w: "w = (c, sent)" by (cases w)
  from build_request_primitive [OF assms, of num c m] obtain req where "build_request num c ps m = Inr req" ..
  then show ?thesis
    using makeApiCall_reply [of "always num (reply ck (error_body code info))" c ps m req sent
        "reply ck (error_body code info)" "error_body code info"]
    by (simp add: w always_def reply_def check_body_error_body)
qed

lemma getEditToken_error_reply:
  assumes "\<not> truthy (editToken (fst w))"
  shows "fst (getEditToken (always num (reply ck (error_body code info))) w) =
           Inl (Error (''MediaWiki API error: '' @ code @ '' - '' @ info))"
  using assms
  by (simp add: getEditToken_def fst_await_Inl makeApiCall_error_reply edit_token_params_def)

lemma edit_error_reply:
  assumes "editToken (fst w) = JUndefined \<or> (\<exists>t. editToken (fst w) = JStr t)"
    and "\<And>token. primitive token \<Longrightarrow> \<forall>kv \<in> set (params token). primitive (snd kv)"
  shows "fst (await (getEditToken (always num (reply ck (error_body code info))))
                (\<lambda>token. makeApiCall (always num (reply ck (error_body code info))) (params token) POST) w) =
           Inl (Error (''MediaWiki API error: '' @ code @ '' - '' @ info))"
proof (cases "truthy (editToken (fst w))")
  case False
  then show ?thesis by (simp add: fst_await_Inl getEditToken_error_reply)
next
  case True
  with assms(1) have "primitive (editToken (fst w))" by auto
  with True show ?thesis
    using getEditToken_cached [OF True, of "always num (reply ck (error_body code info))"]
    by (simp add: await_def makeApiCall_error_reply assms(2))
qed

lemma dispatch_error_reply:
  assumes "n \<in> {''search_pages'', ''read_page'', ''create_page'', ''update_page'',
                 ''get_page_history'', ''get_categories''}"
    and "editToken (fst w) = JUndefined \<or> (\<exists>t. editToken (fst w) = JStr t)"
  shows "fst (dispatch (always num (reply ck (error_body code info))) n a w) =
           Inl (Error (''MediaWiki API error: '' @ code @ '' - '' @ info))"
proof -
  have create: "fst (create_page_case (always num (reply ck (error_body code info))) a w) =
           Inl (Error (''MediaWiki API error: '' @ code @ '' - '' @ info))"
    unfolding create_page_case_def createPage_def
    by (intro fst_await_Inl edit_error_reply assms(2))
       (simp add: create_params_def default_to_def primitive_of_opt)
  have update: "fst (update_page_case (always num (reply ck (error_body code info))) a w) =
           Inl (Error (''MediaWiki API error: '' @ code @ '' - '' @ info))"
    unfolding update_page_case_def updatePage_def
    by (intro fst_await_Inl edit_error_reply assms(2))
       (simp add: update_params_def default_to_def primitive_of_opt)
  have search: "fst (search_pages_case (always num (reply ck (error_body code info))) a w) =
           Inl (Error (''MediaWiki API error: '' @ code @ '' - '' @ info))"
    unfolding search_pages_case_def searchPages_def
    by (intro fst_await_Inl makeApiCall_error_reply) (simp add: default_to_def primitive_of_opt)
  have read: "fst (read_page_case (always num (reply ck (error_body code info))) a w) =
           Inl (Error (''MediaWiki API error: '' @ code @ '' - '' @ info))"
    unfolding read_page_case_def getPage_def
    by (intro fst_await_Inl makeApiCall_error_reply) (simp add: primitive_of_opt)
  have history: "fst (get_page_history_case (always num (reply ck (error_body code info))) a w) =
           Inl (Error (''MediaWiki API error: '' @ code @ '' - '' @ info))"
    unfolding get_page_history_case_def getPageHistory_def
    by (intro fst_await_Inl makeApiCall_error_reply) (simp add: default_to_def primitive_of_opt)
  have categories: "fst (get_categories_case (always num (reply ck (error_body code info))) a w) =
           Inl (Error (''MediaWiki API error: '' @ code @ '' - '' @ info))"
    unfolding get_categories_case_def getCategories_def
    by (intro fst_await_Inl makeApiCall_error_reply) (simp add: primitive_of_opt)
  from assms(1) create update search read history categories show ?thesis
    by (auto simp: dispatch_def)
qed

lemma login_error_reply:
  "fst (login (always num (reply ck (error_body code info))) w) =
       Inl (Error (''MediaWiki API error: '' @ code @ '' - '' @ info))
   \<or> (\<exists>ok. login (always num (reply ck (error_body code info))) w = (Inr ok, w))"
proof (cases "\<not> truthy_opt (username (fst w)) \<or> \<not> truthy_opt (password (fst w)) \<or> loggedIn (fst w)")
  case True
  then show ?thesis by (auto simp: login_def)
next
  case False
  then have "fst (login (always num (reply ck (error_body code info))) w) =
       Inl (Error (''MediaWiki API error: '' @ code @ '' - '' @ info))"
    by (simp add: login_def fst_await_Inl makeApiCall_error_reply login_token_params_def)
  then show ?thesis ..
qed

lemma try_body_error_reply:
  assumes "call_arguments rq = Some a"
    and "call_name rq \<in> {''search_pages'', ''read_page'', ''create_page'', ''update_page'',
                 ''get_page_history'', ''get_categories''}"
    and "editToken (fst w) = JUndefined \<or> (\<exists>t. editToken (fst w) = JStr t)"
  shows "fst (try_body (always num (reply ck (error_body code info))) rq w) =
           Inl (Error (''MediaWiki API error: '' @ code @ '' - '' @ info))"
proof (cases "call_name rq \<noteq> ''search_pages'' \<and> call_name rq \<noteq> ''read_page''")
  case False
  then have "try_body (always num (reply ck (error_body code info))) rq w =
      dispatch (always num (reply ck (error_body code info))) (call_name rq) a w"
    using assms(1) by (auto simp: try_body_def)
  then show ?thesis
    using dispatch_error_reply [OF assms(2,3)] by simp
next
  case True
  from login_error_reply [of num ck code info w] show ?thesis
  proof
    assume "fst (login (always num (reply ck (error_body code info))) w) =
       Inl (Error (''MediaWiki API error: '' @ code @ '' - '' @ info))"
    then show ?thesis
      using True assms(1) by (simp add: try_body_def fst_await_Inl)
  next
    assume "\<exists>ok. login (always num (reply ck (error_body code info))) w = (Inr ok, w)"
    then obtain ok where "login (always num (reply ck (error_body code info))) w = (Inr ok, w)" ..
    then show ?thesis
      using True assms by (simp add: try_body_def await_def dispatch_error_reply)
  qed
qed

text \<open>
  C4. The handler is total: whatever is thrown while a tool call is handled ends as a
  tool result with \<^verbatim>\<open>isError: true\<close> whose text is \<^verbatim>\<open>Error: <message>\<close>, and nothing else
  produces an error result. So missing arguments give \<^verbatim>\<open>Error: Arguments are required\<close>,
  a failed login gives \<^verbatim>\<open>Error: <message of the login error>\<close>, a name of no tool gives
  \<^verbatim>\<open>Error: Unknown tool: <name>\<close>, and against a remote that answers with the error
  \<^verbatim>\<open>{code, info}\<close> each of the six tools gives
  \<^verbatim>\<open>Error: MediaWiki API error: <code> - <info>\<close> (the cached edit token being, as its
  type says, a string or undefined).
\<close>

theorem callTool_catches_errors:
  "((\<exists>r. try_body env rq w = (Inr r, snd (callTool env rq w)) \<and> fst (callTool env rq w) = r)
    \<or> (\<exists>e. try_body env rq w = (Inl e, snd (callTool env rq w)) \<and>
            fst (callTool env rq w) = \<lparr>res_text = Plain (''Error: '' @ message e), isError = True\<rparr>))
   \<and> (call_arguments rq = None \<longrightarrow>
        callTool env rq w = (\<lparr>res_text = Plain ''Error: Arguments are required'', isError = True\<rparr>, w))
   \<and> (call_arguments rq = Some a \<and> call_name rq \<noteq> ''search_pages'' \<and> call_name rq \<noteq> ''read_page'' \<and>
      login env w = (Inl e, w1) \<longrightarrow>
        callTool env rq w = (\<lparr>res_text = Plain (''Error: '' @ message e), isError = True\<rparr>, w1))
   \<and> (call_arguments rq = Some a \<and> login env w = (Inr ok, w1) \<and>
      call_name rq \<notin> {''search_pages'', ''read_page'', ''create_page'', ''update_page'',
                       ''get_page_history'', ''get_categories''} \<longrightarrow>
        callTool env rq w =
          (\<lparr>res_text = Plain (''Error: Unknown tool: '' @ call_name rq), isError = True\<rparr>, w1))
   \<and> (call_arguments rq = Some a \<and>
      call_name rq \<in> {''search_pages'', ''read_page'', ''create_page'', ''update_page'',
                       ''get_page_history'', ''get_categories''} \<and>
      (editToken (fst w) = JUndefined \<or> (\<exists>t. editToken (fst w) = JStr t)) \<longrightarrow>
        fst (callTool (always num (reply ck (error_body code info))) rq w) =
          \<lparr>res_text = Plain (''Error: MediaWiki API error: '' @ code @ '' - '' @ info), isError = True\<rparr>)"
proof (intro conjI impI)
  show "(\<exists>r. try_body env rq w = (Inr r, snd (callTool env rq w)) \<and> fst (callTool env rq w) = r)
    \<or> (\<exists>e. try_body env rq w = (Inl e, snd (callTool env rq w)) \<and>
            fst (callTool env rq w) = \<lparr>res_text = Plain (''Error: '' @ message e), isError = True\<rparr>)"
    by (cases "try_body env rq w") (auto simp: callTool_def error_result_def split: sum.splits)
next
  assume "call_arguments rq = None"
  then show "callTool env rq w = (\<lparr>res_text = Plain ''Error: Arguments are required'', isError = True\<rparr>, w)"
    by (simp add: callTool_def try_body_def expr_def error_result_def)
next
  assume "call_arguments rq = Some a \<and> call_name rq \<noteq> ''search_pages'' \<and> call_name rq \<noteq> ''read_page'' \<and>
      login env w = (Inl e, w1)"
  then show "callTool env rq w = (\<lparr>res_text = Plain (''Error: '' @ message e), isError = True\<rparr>, w1)"
    by (simp add: callTool_def try_body_def await_def error_result_def)
next
  assume h: "call_arguments rq = Some a \<and> login env w = (Inr ok, w1) \<and>
      call_name rq \<notin> {''search_pages'', ''read_page'', ''create_page'', ''update_page'',
                       ''get_page_history'', ''get_categories''}"
  then have "try_body env rq w = (Inl (Error (''Unknown tool: '' @ call_name rq)), w1)"
    by (simp add: try_body_def await_def dispatch_def expr_def)
  then show "callTool env rq w =
          (\<lparr>res_text = Plain (''Error: Unknown tool: '' @ call_name rq), isError = True\<rparr>, w1)"
    by (simp add: callTool_def error_result_def)
next
  assume "call_arguments rq = Some a \<and>
      call_name rq \<in> {''search_pages'', ''read_page'', ''create_page'', ''update_page'',
                       ''get_page_history'', ''get_categories''} \<and>
      (editToken (fst w) = JUndefined \<or> (\<exists>t. editToken (fst w) = JStr t))"
  then have "fst (try_body (always num (reply ck (error_body code info))) rq w) =
           Inl (Error (''MediaWiki API error: '' @ code @ '' - '' @ info))"
    by (intro try_body_error_reply) simp_all
  then show "fst (callTool (always num (reply ck (error_body code info))) rq w) =
          \<lparr>res_text = Plain (''Error: MediaWiki API error: '' @ code @ '' - '' @ info), isError = True\<rparr>"
    by (simp add: fst_callTool_Inl error_result_def)
qed

text \<open>
  The four kinds of error at the tool boundary: a \<^verbatim>\<open>badtoken\<close> reply to an edit, missing
  arguments, an unknown tool, and a rejected login.
\<close>

theorem callTool_catches_errors_witness:
  "fst (callTool (always node_text badtoken_reply) (edit_call ''update_page'') (stale_session, [])) =
     \<lparr>res_text = Plain ''Error: MediaWiki API error: badtoken - Invalid CSRF token.'', isError = True\<rparr>
   \<and> callTool (always node_text badtoken_reply) no_arguments_call (anonymous, []) =
       (\<lparr>res_text = Plain ''Error: Arguments are required'', isError = True\<rparr>, (anonymous, []))
   \<and> callTool (always node_text badtoken_reply) unknown_call (anonymous, []) =
       (\<lparr>res_text = Plain ''Error: Unknown tool: delete_page'', isError = True\<rparr>, (anonymous, []))
   \<and> fst (callTool (scripted node_text [login_token_reply, login_failed_reply]) (edit_call ''create_page'') (editor, [])) =
       \<lparr>res_text = Plain ''Error: Login failed: Incorrect password'', isError = True\<rparr>"
proof -
  have anon: "login (always node_text badtoken_reply) (anonymous, []) = (Inr False, (anonymous, []))"
    by (simp add: login_def anonymous_def new_client_def)
  have failed: "login (scripted node_text [login_token_reply, login_failed_reply]) (editor, []) =
      (Inl (Error ''Login failed: Incorrect password''),
       (editor\<lparr>cookies := [''session=abc'']\<rparr>, [login_token_request, login_request]))"
    by (simp add: example_defs call_defs login_token_reply_def login_failed_reply_def login_def
        login_token_params_def login_params_def login_failed_def await_def expr_def
        login_token_request_def login_request_def)
  from callTool_catches_errors [where rq = "edit_call ''update_page''" and w = "(stale_session, [])"
      and a = "no_arguments\<lparr>arg_title := Some ''Dotta'', arg_content := Some ''A wizard.''\<rparr>"
      and ck = "Some ''sid=1''" and code = "''badtoken''" and info = "''Invalid CSRF token.''"]
  have one: "fst (callTool (always node_text badtoken_reply) (edit_call ''update_page'') (stale_session, [])) =
     \<lparr>res_text = Plain ''Error: MediaWiki API error: badtoken - Invalid CSRF token.'', isError = True\<rparr>"
    by (simp add: edit_call_def stale_session_def badtoken_reply_def)
  from callTool_catches_errors [where rq = no_arguments_call and w = "(anonymous, [])"
      and env = "always node_text badtoken_reply"]
  have two: "callTool (always node_text badtoken_reply) no_arguments_call (anonymous, []) =
       (\<lparr>res_text = Plain ''Error: Arguments are required'', isError = True\<rparr>, (anonymous, []))"
    by (simp add: no_arguments_call_def)
  from callTool_catches_errors [where rq = unknown_call and w = "(anonymous, [])"
      and env = "always node_text badtoken_reply" and a = no_arguments and ok = False and ?w1.0 = "(anonymous, [])"]
  have three: "callTool (always node_text badtoken_reply) unknown_call (anonymous, []) =
       (\<lparr>res_text = Plain ''Error: Unknown tool: delete_page'', isError = True\<rparr>, (anonymous, []))"
    using anon by (simp add: unknown_call_def)
  from callTool_catches_errors [where rq = "edit_call ''create_page''" and w = "(editor, [])"
      and env = "scripted node_text [login_token_reply, login_failed_reply]"
      and a = "no_arguments\<lparr>arg_title := Some ''Dotta'', arg_content := Some ''A wizard.''\<rparr>"
      and e = "Error ''Login failed: Incorrect password''"
      and ?w1.0 = "(editor\<lparr>cookies := [''session=abc'']\<rparr>, [login_token_request, login_request])"]
  have four: "fst (callTool (scripted node_text [login_token_reply, login_failed_reply]) (edit_call ''create_page'') (editor, [])) =
       \<lparr>res_text = Plain ''Error: Login failed: Incorrect password'', isError = True\<rparr>"
    using failed by (simp add: edit_call_def)
  from one two three four show ?thesis by simp
qed

end
